theory Spec2Isabelle
  imports Complex_Main "HOL-Library.Word"
begin

section \<open>Values, errors and HTTP responses\<close>

text \<open>
  The backend (\<^verbatim>\<open>src/backend/main.py\<close>) relays requests to a remote conversion
  service and inspects the JSON the service answers with. A decoded JSON body is a value
  of type \<open>json\<close>; an object is the list of its items in order (a Python \<^verbatim>\<open>dict\<close>),
  a float is the rational number it stands for (the decoder's non-standard
  \<^verbatim>\<open>NaN\<close> and \<^verbatim>\<open>Infinity\<close> are left out).
\<close>

datatype json =
    JNull
  | JBool bool
  | JInt int
  | JFloat rat
  | JStr string
  | JArr "json list"
  | JObj "(string \<times> json) list"

type_synonym bytes = "8 word list"

text \<open>The enumeration \<^verbatim>\<open>TaskStatus(str, Enum)\<close>.\<close>

datatype TaskStatus = QUEUED | RUNNING | SUCCESS | FAILED

text \<open>
  Exceptions other than \<^verbatim>\<open>HTTPException\<close> that the source can meet: the Python
  built-ins raised by subscripting and membership tests, the JSON decoder's and the model
  validator's errors, the two \<^verbatim>\<open>httpx\<close> classes the client catches, and errors of
  the image library and the file system.
\<close>

datatype pyerr =
    TypeError
  | KeyError string
  | ValueError
  | AttributeError
  | IndexError
  | JSONDecodeError
  | ValidationError
  | OSError
  | ImageError
  | TimeoutException
  | RequestError string

text \<open>
  The \<^verbatim>\<open>detail\<close> of an \<^verbatim>\<open>HTTPException\<close> is an f-string in the source. Each
  constructor stands for one format string of the source and carries the values the
  f-string interpolates, in order.
\<close>

datatype detail =
    CouldNotExtractToken json
      \<comment> \<open>\<^verbatim>\<open>Could not extract token from upload response: {result}\<close>\<close>
  | UploadFailed int string
      \<comment> \<open>\<^verbatim>\<open>Upload failed: Status {status_code}, Response: {text}\<close>\<close>
  | UploadTimeout
  | UploadRequestFailed string
  | FailedToCreateTask int string
  | CouldNotExtractTaskId json
  | TaskCreationTimeout
  | TaskCreationRequestFailed string
  | FailedToGetTaskStatus int string
      \<comment> \<open>\<^verbatim>\<open>Failed to get task status: Status {status_code}, Response: {text}\<close>\<close>
  | InvalidTaskStatusResponseFormat json
      \<comment> \<open>\<^verbatim>\<open>Invalid task status response format: {result}\<close>\<close>
  | StatusCheckTimeout
  | StatusCheckRequestFailed string
  | FailedToDownloadFile int
  | DownloadTimeout
  | DownloadRequestFailed string
  | ApiKeyNotConfigured
  | FileMustBeAnImage "string option"
  | FileSizeTooLarge
      \<comment> \<open>\<^verbatim>\<open>File size too large. Maximum size is 10MB.\<close>\<close>
  | ReceivedEmptyFile
  | InternalError pyerr
      \<comment> \<open>\<^verbatim>\<open>Internal error: {str(e)}\<close>\<close>
  | StrOf pyerr
      \<comment> \<open>\<^verbatim>\<open>str(e)\<close>\<close>
  | TaskNotCompleted TaskStatus
      \<comment> \<open>\<^verbatim>\<open>Task not completed. Current status: {task_response.status}\<close>\<close>
  | ModelNotFound
      \<comment> \<open>\<^verbatim>\<open>3D model not found in task output\<close>\<close>
  | FormatNotAvailable string "string list"
      \<comment> \<open>\<^verbatim>\<open>Format '{format}' not available. Available formats: {available_formats}\<close>\<close>

datatype exn = HTTPException int detail | Raised pyerr

text \<open>
  An \<^verbatim>\<open>httpx\<close> response as the client reads it: the status code, the body text, and
  what \<^verbatim>\<open>response.json()\<close> gives (\<open>None\<close> when the body is not JSON and the call
  raises), and the raw content.
\<close>

record response =
  status_code :: int
  body_text :: string
  json_body :: "json option"
  content :: bytes

text \<open>A request either raises (a \<open>pyerr\<close>) or returns a response.\<close>

type_synonym http_outcome = "pyerr + response"

section \<open>Python operations on decoded JSON\<close>

text \<open>\<^verbatim>\<open>needle in haystack\<close> for two strings.\<close>

fun substr :: "string \<Rightarrow> string \<Rightarrow> bool" where
  "substr p [] = (p = [])"
| "substr p (c # cs) = (take (length p) (c # cs) = p \<or> substr p cs)"

text \<open>
  \<^verbatim>\<open>key in value\<close> with a string key: key membership for a dict, element membership
  for a list, substring for a string, \<^verbatim>\<open>TypeError\<close> for anything else.
\<close>

fun py_in :: "string \<Rightarrow> json \<Rightarrow> exn + bool" where
  "py_in k (JObj kvs) = Inr (k \<in> set (map fst kvs))"
| "py_in k (JArr xs) = Inr (JStr k \<in> set xs)"
| "py_in k (JStr s) = Inr (substr k s)"
| "py_in k _ = Inl (Raised TypeError)"

text \<open>\<^verbatim>\<open>value[key]\<close> with a string key: defined on a dict only.\<close>

fun py_getitem :: "json \<Rightarrow> string \<Rightarrow> exn + json" where
  "py_getitem (JObj kvs) k =
     (case map_of kvs k of None \<Rightarrow> Inl (Raised (KeyError k)) | Some v \<Rightarrow> Inr v)"
| "py_getitem _ k = Inl (Raised TypeError)"

section \<open>The upload response: \<^verbatim>\<open>Tripo3DClient.upload_image\<close>\<close>

text \<open>
  The loop \<^verbatim>\<open>for key in ["image_token", "token", "file_token"]\<close> over the dict
  \<^verbatim>\<open>result["data"]\<close>: the value of the first key present, if any.
\<close>

fun probe_keys :: "string list \<Rightarrow> (string \<times> json) list \<Rightarrow> json option" where
  "probe_keys [] d = None"
| "probe_keys (key # keys) d =
     (if key \<in> set (map fst d) then map_of d key else probe_keys keys d)"

text \<open>
  Lines 153-173: what the client does with the decoded body \<open>result\<close> of a 200 response.
  Falling out of the \<^verbatim>\<open>if\<close>/\<^verbatim>\<open>elif\<close> chain reaches the final \<^verbatim>\<open>raise\<close>.
\<close>

definition extract_token :: "json \<Rightarrow> exn + json" where
  "extract_token result =
     (let not_found = Inl (HTTPException 500 (CouldNotExtractToken result)) in
      case py_in ''data'' result of
        Inl e \<Rightarrow> Inl e
      | Inr True \<Rightarrow>
          (case py_getitem result ''data'' of
             Inl e \<Rightarrow> Inl e
           | Inr (JObj d) \<Rightarrow>
               (case probe_keys [''image_token'', ''token'', ''file_token''] d of
                  Some tok \<Rightarrow> Inr tok
                | None \<Rightarrow> not_found)
           | Inr (JStr s) \<Rightarrow> Inr (JStr s)
           | Inr _ \<Rightarrow> not_found)
      | Inr False \<Rightarrow>
          (case py_in ''token'' result of
             Inl e \<Rightarrow> Inl e
           | Inr True \<Rightarrow> py_getitem result ''token''
           | Inr False \<Rightarrow>
               (case py_in ''image_token'' result of
                  Inl e \<Rightarrow> Inl e
                | Inr True \<Rightarrow> py_getitem result ''image_token''
                | Inr False \<Rightarrow> not_found)))"

section \<open>The image normalizer: \<^verbatim>\<open>optimize_image_for_upload\<close>\<close>

text \<open>
  The image library (Pillow) is outside the repository. Its operations are parameters of
  the model: a record of functions over an image type \<open>'img\<close>, each of which may raise.
  \<open>img_paste P background img alpha\<close> and \<open>img_thumbnail P img box\<close> return the
  image that the source's in-place call leaves behind; \<open>img_save P img q\<close> is
  \<^verbatim>\<open>img.save(output, format='JPEG', quality=q, optimize=True)\<close> followed by
  \<^verbatim>\<open>output.getvalue()\<close>.
\<close>

record 'img pil =
  pil_open :: "bytes \<Rightarrow> pyerr + 'img"
  img_mode :: "'img \<Rightarrow> string"
  img_has_transparency :: "'img \<Rightarrow> bool"
  img_size :: "'img \<Rightarrow> int \<times> int"
  img_convert :: "'img \<Rightarrow> string \<Rightarrow> pyerr + 'img"
  pil_new :: "string \<Rightarrow> int \<times> int \<Rightarrow> int \<times> int \<times> int \<Rightarrow> pyerr + 'img"
  img_split :: "'img \<Rightarrow> pyerr + 'img list"
  img_paste :: "'img \<Rightarrow> 'img \<Rightarrow> 'img \<Rightarrow> pyerr + 'img"
  img_thumbnail :: "'img \<Rightarrow> int \<times> int \<Rightarrow> pyerr + 'img"
  img_save :: "'img \<Rightarrow> nat \<Rightarrow> pyerr + bytes"

text \<open>\<^verbatim>\<open>img.split()[-1]\<close> and \<^verbatim>\<open>img.split()[1]\<close>.\<close>

definition last_band :: "'img pil \<Rightarrow> 'img \<Rightarrow> pyerr + 'img" where
  "last_band P img =
     (case img_split P img of
        Inl e \<Rightarrow> Inl e
      | Inr bands \<Rightarrow> (if bands = [] then Inl IndexError else Inr (last bands)))"

definition second_band :: "'img pil \<Rightarrow> 'img \<Rightarrow> pyerr + 'img" where
  "second_band P img =
     (case img_split P img of
        Inl e \<Rightarrow> Inl e
      | Inr bands \<Rightarrow> (if length bands < 2 then Inl IndexError else Inr (bands ! 1)))"

text \<open>Lines 85-93: the inner branch, taken once the mode is one of RGBA, P, LA.\<close>

definition flatten_alpha :: "'img pil \<Rightarrow> 'img \<Rightarrow> pyerr + 'img" where
  "flatten_alpha P img =
     (if img_mode P img \<in> {''RGBA'', ''LA''} then
        (case pil_new P ''RGB'' (img_size P img) (255, 255, 255) of
           Inl e \<Rightarrow> Inl e
         | Inr background \<Rightarrow>
             (case (if img_mode P img = ''RGBA'' then last_band P img
                    else second_band P img) of
                Inl e \<Rightarrow> Inl e
              | Inr alpha \<Rightarrow> img_paste P background img alpha))
      else img_convert P img ''RGB'')"

text \<open>Lines 80-95: convert to RGB if necessary.\<close>

definition to_rgb :: "'img pil \<Rightarrow> 'img \<Rightarrow> pyerr + 'img" where
  "to_rgb P img =
     (if img_mode P img \<in> {''RGBA'', ''P'', ''LA''} then
        (if img_mode P img = ''P'' \<and> img_has_transparency P img then
           (case img_convert P img ''RGBA'' of
              Inl e \<Rightarrow> Inl e
            | Inr img' \<Rightarrow> flatten_alpha P img')
         else flatten_alpha P img)
      else if img_mode P img \<notin> {''RGB'', ''L''} then img_convert P img ''RGB''
      else Inr img)"

text \<open>Lines 97-99: resize if too large.\<close>

definition resize_if_large :: "'img pil \<Rightarrow> 'img \<Rightarrow> int \<Rightarrow> pyerr + 'img" where
  "resize_if_large P img max_size =
     (if max (fst (img_size P img)) (snd (img_size P img)) > max_size
      then img_thumbnail P img (max_size, max_size)
      else Inr img)"

text \<open>Lines 101-111: save as JPEG at quality 85, once more at 70 above 5 MB.\<close>

definition encode_jpeg :: "'img pil \<Rightarrow> 'img \<Rightarrow> pyerr + bytes" where
  "encode_jpeg P img =
     (case img_save P img 85 of
        Inl e \<Rightarrow> Inl e
      | Inr result_data \<Rightarrow>
          (if int (length result_data) > 5 * 1024 * 1024 then img_save P img 70
           else Inr result_data))"

text \<open>The body of the \<^verbatim>\<open>try\<close> block, lines 79-111.\<close>

definition optimize_try :: "'img pil \<Rightarrow> bytes \<Rightarrow> int \<Rightarrow> pyerr + bytes" where
  "optimize_try P image_data max_size =
     (case pil_open P image_data of
        Inl e \<Rightarrow> Inl e
      | Inr img \<Rightarrow>
          (case to_rgb P img of
             Inl e \<Rightarrow> Inl e
           | Inr rgb \<Rightarrow>
               (case resize_if_large P rgb max_size of
                  Inl e \<Rightarrow> Inl e
                | Inr small \<Rightarrow> encode_jpeg P small)))"

text \<open>The function: \<^verbatim>\<open>except Exception\<close> returns \<^verbatim>\<open>image_data\<close>.\<close>

definition optimize_image_for_upload :: "'img pil \<Rightarrow> bytes \<Rightarrow> int \<Rightarrow> bytes" where
  "optimize_image_for_upload P image_data max_size =
     (case optimize_try P image_data max_size of
        Inl e \<Rightarrow> image_data
      | Inr result_data \<Rightarrow> result_data)"

section \<open>The remote API client\<close>

text \<open>
  The two \<^verbatim>\<open>except\<close> clauses every client method ends with: a timeout becomes 408,
  any other \<^verbatim>\<open>httpx.RequestError\<close> becomes 500 with the error's text, and every
  other exception propagates.
\<close>

fun translate_httpx :: "detail \<Rightarrow> (string \<Rightarrow> detail) \<Rightarrow> pyerr \<Rightarrow> exn" where
  "translate_httpx timeout failed TimeoutException = HTTPException 408 timeout"
| "translate_httpx timeout failed (RequestError msg) = HTTPException 500 (failed msg)"
| "translate_httpx timeout failed e = Raised e"

text \<open>
  \<^verbatim>\<open>upload_image\<close>, lines 122-185. \<open>post\<close> is the remote upload endpoint: given the
  file name and the bytes sent, the outcome of \<^verbatim>\<open>client.post\<close>.
\<close>

definition upload_image ::
  "'img pil \<Rightarrow> (string \<Rightarrow> bytes \<Rightarrow> http_outcome) \<Rightarrow> bytes \<Rightarrow> string \<Rightarrow> exn + json" where
  "upload_image P post image_data filename =
     (let optimized_image = optimize_image_for_upload P image_data 1024 in
      case post filename optimized_image of
        Inl e \<Rightarrow> Inl (translate_httpx UploadTimeout UploadRequestFailed e)
      | Inr response \<Rightarrow>
          (if status_code response = 200 then
             (case json_body response of
                None \<Rightarrow> Inl (Raised JSONDecodeError)
              | Some result \<Rightarrow> extract_token result)
           else Inl (HTTPException (status_code response)
                       (UploadFailed (status_code response) (body_text response)))))"

text \<open>
  The pydantic models. \<^verbatim>\<open>ImageTo3DRequest\<close> is built from form fields that the
  framework has already typed; \<^verbatim>\<open>TaskResponse\<close> is built from decoded JSON, which
  pydantic validates field by field.
\<close>

record ImageTo3DRequest =
  model_version :: "string option"
  style :: "string option"
  texture_resolution :: "int option"
  remesh :: "string option"

record TaskResponse =
  task_id :: string
  status :: TaskStatus
  input :: "(string \<times> json) list option"
  "output" :: "(string \<times> json) list option"
  progress :: "int option"
  created_time :: "int option"

text \<open>
  Which values pydantic accepts for a \<^verbatim>\<open>str\<close>, a \<^verbatim>\<open>Dict[str, Any]\<close> and an
  \<^verbatim>\<open>int\<close> field, and what it turns them into, depends on the pydantic release and is
  not part of the repository: the three field validators are parameters.
\<close>

record validators =
  validate_str :: "json \<Rightarrow> string option"
  validate_dict :: "json \<Rightarrow> (string \<times> json) list option"
  validate_int :: "json \<Rightarrow> int option"

text \<open>An \<^verbatim>\<open>Optional[...]\<close> field: a missing key and \<^verbatim>\<open>null\<close> both give \<^verbatim>\<open>None\<close>.\<close>

fun optional_field :: "(json \<Rightarrow> 'a option) \<Rightarrow> json option \<Rightarrow> exn + 'a option" where
  "optional_field f None = Inr None"
| "optional_field f (Some JNull) = Inr None"
| "optional_field f (Some v) =
     (case f v of None \<Rightarrow> Inl (Raised ValidationError) | Some a \<Rightarrow> Inr (Some a))"

text \<open>\<^verbatim>\<open>TaskStatus(value)\<close>: the member with that value, else \<^verbatim>\<open>ValueError\<close>.\<close>

definition TaskStatus_of :: "json \<Rightarrow> exn + TaskStatus" where
  "TaskStatus_of v =
     (if v = JStr ''queued'' then Inr QUEUED
      else if v = JStr ''running'' then Inr RUNNING
      else if v = JStr ''success'' then Inr SUCCESS
      else if v = JStr ''failed'' then Inr FAILED
      else Inl (Raised ValueError))"

text \<open>\<^verbatim>\<open>data.get(key)\<close>: a dict method; \<^verbatim>\<open>None\<close> when the key is missing.\<close>

fun py_get :: "json \<Rightarrow> string \<Rightarrow> exn + json option" where
  "py_get (JObj kvs) k = Inr (map_of kvs k)"
| "py_get _ k = Inl (Raised AttributeError)"

text \<open>
  \<^verbatim>\<open>create_task\<close>, lines 191-212: the payload. A string or a number is added to
  \<^verbatim>\<open>extra\<close> when it is truthy (set, and not empty or zero).
\<close>

definition create_task_extra :: "ImageTo3DRequest \<Rightarrow> (string \<times> json) list" where
  "create_task_extra request_params =
     (case model_version request_params of
        Some v \<Rightarrow> (if v \<noteq> [] then [(''model_version'', JStr v)] else [])
      | None \<Rightarrow> [])
     @ (case style request_params of
        Some v \<Rightarrow> (if v \<noteq> [] \<and> v \<noteq> ''none'' then [(''style'', JStr v)] else [])
      | None \<Rightarrow> [])
     @ (case texture_resolution request_params of
        Some n \<Rightarrow> (if n \<noteq> 0 then [(''texture_resolution'', JInt n)] else [])
      | None \<Rightarrow> [])
     @ (case remesh request_params of
        Some v \<Rightarrow> (if v \<noteq> [] \<and> v \<noteq> ''none'' then [(''remesh'', JStr v)] else [])
      | None \<Rightarrow> [])"

definition create_task_payload :: "json \<Rightarrow> ImageTo3DRequest \<Rightarrow> json" where
  "create_task_payload file_token request_params =
     (let extra = create_task_extra request_params in
      JObj ([(''type'', JStr ''image_to_model''),
             (''file'', JObj [(''type'', JStr ''image''), (''file_token'', file_token)])]
            @ (if extra \<noteq> [] then [(''extra'', JObj extra)] else [])))"

text \<open>Lines 236-247: the task id in the decoded body of a 200 response.\<close>

definition extract_task_id :: "json \<Rightarrow> exn + json" where
  "extract_task_id result =
     (let top_level =
        (case py_in ''task_id'' result of
           Inl e \<Rightarrow> Inl e
         | Inr True \<Rightarrow> py_getitem result ''task_id''
         | Inr False \<Rightarrow> Inl (HTTPException 500 (CouldNotExtractTaskId result)))
      in
      case py_in ''data'' result of
        Inl e \<Rightarrow> Inl e
      | Inr False \<Rightarrow> top_level
      | Inr True \<Rightarrow>
          (case py_getitem result ''data'' of
             Inl e \<Rightarrow> Inl e
           | Inr d \<Rightarrow>
               (case py_in ''task_id'' d of
                  Inl e \<Rightarrow> Inl e
                | Inr True \<Rightarrow> py_getitem d ''task_id''
                | Inr False \<Rightarrow> top_level)))"

text \<open>\<^verbatim>\<open>create_task\<close>. \<open>post\<close> is the remote task endpoint, given the payload.\<close>

definition create_task ::
  "(json \<Rightarrow> http_outcome) \<Rightarrow> json \<Rightarrow> ImageTo3DRequest \<Rightarrow> exn + json" where
  "create_task post file_token request_params =
     (case post (create_task_payload file_token request_params) of
        Inl e \<Rightarrow> Inl (translate_httpx TaskCreationTimeout TaskCreationRequestFailed e)
      | Inr response \<Rightarrow>
          (if status_code response \<noteq> 200 then
             Inl (HTTPException (status_code response)
                    (FailedToCreateTask (status_code response) (body_text response)))
           else
             (case json_body response of
                None \<Rightarrow> Inl (Raised JSONDecodeError)
              | Some result \<Rightarrow> extract_task_id result)))"

text \<open>
  Lines 272-289 of \<^verbatim>\<open>Tripo3DClient.get_task_status\<close>: from the decoded body of a 200
  response to a \<^verbatim>\<open>TaskResponse\<close>. The arguments of the constructor are evaluated in
  order (\<^verbatim>\<open>data["status"]\<close> first), then pydantic validates the fields.
\<close>

definition task_response_of :: "validators \<Rightarrow> json \<Rightarrow> json \<Rightarrow> exn + TaskResponse" where
  "task_response_of V tid result =
     (case py_in ''data'' result of
        Inl e \<Rightarrow> Inl e
      | Inr False \<Rightarrow> Inl (HTTPException 500 (InvalidTaskStatusResponseFormat result))
      | Inr True \<Rightarrow>
     (case py_getitem result ''data'' of
        Inl e \<Rightarrow> Inl e
      | Inr data \<Rightarrow>
     (case py_getitem data ''status'' of
        Inl e \<Rightarrow> Inl e
      | Inr status_value \<Rightarrow>
     (case TaskStatus_of status_value of
        Inl e \<Rightarrow> Inl e
      | Inr st \<Rightarrow>
     (case py_get data ''input'' of
        Inl e \<Rightarrow> Inl e
      | Inr inp \<Rightarrow>
     (case py_get data ''output'' of
        Inl e \<Rightarrow> Inl e
      | Inr outp \<Rightarrow>
     (case py_get data ''progress'' of
        Inl e \<Rightarrow> Inl e
      | Inr prog \<Rightarrow>
     (case py_get data ''created_time'' of
        Inl e \<Rightarrow> Inl e
      | Inr ctime \<Rightarrow>
     (case validate_str V tid of
        None \<Rightarrow> Inl (Raised ValidationError)
      | Some tid' \<Rightarrow>
     (case optional_field (validate_dict V) inp of
        Inl e \<Rightarrow> Inl e
      | Inr inp' \<Rightarrow>
     (case optional_field (validate_dict V) outp of
        Inl e \<Rightarrow> Inl e
      | Inr outp' \<Rightarrow>
     (case optional_field (validate_int V) prog of
        Inl e \<Rightarrow> Inl e
      | Inr prog' \<Rightarrow>
     (case optional_field (validate_int V) ctime of
        Inl e \<Rightarrow> Inl e
      | Inr ctime' \<Rightarrow>
          Inr \<lparr>task_id = tid', status = st, input = inp', output = outp',
               progress = prog', created_time = ctime'\<rparr>)))))))))))))"

text \<open>
  \<^verbatim>\<open>Tripo3DClient.get_task_status\<close>, lines 254-294. \<open>get\<close> is the remote status
  endpoint, given the task id that the URL is formatted from.
\<close>

definition Tripo3DClient_get_task_status ::
  "validators \<Rightarrow> (json \<Rightarrow> http_outcome) \<Rightarrow> json \<Rightarrow> exn + TaskResponse" where
  "Tripo3DClient_get_task_status V get tid =
     (case get tid of
        Inl e \<Rightarrow> Inl (translate_httpx StatusCheckTimeout StatusCheckRequestFailed e)
      | Inr response \<Rightarrow>
          (if status_code response \<noteq> 200 then
             Inl (HTTPException (status_code response)
                    (FailedToGetTaskStatus (status_code response) (body_text response)))
           else
             (case json_body response of
                None \<Rightarrow> Inl (Raised JSONDecodeError)
              | Some result \<Rightarrow> task_response_of V tid result)))"

text \<open>
  \<^verbatim>\<open>download_file\<close>, lines 296-321. \<open>get\<close> is the provider's file URL, \<open>write_file\<close>
  the file system: creating the directory and writing the file may raise.
\<close>

definition download_file ::
  "(json \<Rightarrow> http_outcome) \<Rightarrow> (string \<Rightarrow> bytes \<Rightarrow> pyerr option) \<Rightarrow> json \<Rightarrow> string
     \<Rightarrow> exn + string" where
  "download_file get write_file url filename =
     (case get url of
        Inl e \<Rightarrow> Inl (translate_httpx DownloadTimeout DownloadRequestFailed e)
      | Inr response \<Rightarrow>
          (if status_code response \<noteq> 200 then
             Inl (HTTPException (status_code response)
                    (FailedToDownloadFile (status_code response)))
           else
             (let file_path = ''downloads/'' @ filename in
              case write_file file_path (content response) of
                Some e \<Rightarrow> Inl (translate_httpx DownloadTimeout DownloadRequestFailed e)
              | None \<Rightarrow> Inr file_path)))"

section \<open>The task tracker and the request handlers\<close>

text \<open>
  \<^verbatim>\<open>task_storage\<close> is a process-wide dict. A key is whatever \<^verbatim>\<open>create_task\<close>
  returned (a string, by its annotation), or the string of the path parameter. Writing
  under a list or a dict raises \<^verbatim>\<open>TypeError\<close> (unhashable). A Python dict
  identifies keys that compare equal: \<^verbatim>\<open>True\<close>, \<^verbatim>\<open>1\<close> and \<^verbatim>\<open>1.0\<close> are
  one key, a string equals only itself. The tracker is a map on one representative of
  each class of equal keys, \<open>dict_key k\<close>.
\<close>

type_synonym task_storage = "json \<rightharpoonup> TaskResponse"

fun dict_key :: "json \<Rightarrow> json" where
  "dict_key (JBool b) = JInt (if b then 1 else 0)"
| "dict_key (JFloat q) = (if of_int \<lfloor>q\<rfloor> = q then JInt \<lfloor>q\<rfloor> else JFloat q)"
| "dict_key k = k"

fun hashable :: "json \<Rightarrow> bool" where
  "hashable (JArr xs) = False"
| "hashable (JObj kvs) = False"
| "hashable _ = True"

definition store :: "json \<Rightarrow> TaskResponse \<Rightarrow> task_storage \<Rightarrow> exn + task_storage" where
  "store k r st =
     (if hashable k then Inr (st(dict_key k \<mapsto> r)) else Inl (Raised TypeError))"

text \<open>
  The server's state: the tracker, and the task ids for which
  \<^verbatim>\<open>monitor_task_progress\<close> has been scheduled.
\<close>

record server =
  task_storage :: task_storage
  background_tasks :: "json list"

text \<open>The uploaded file as the submit handler reads it.\<close>

record UploadFile =
  content_type :: "string option"
  file_size :: "int option"
  filename :: "string option"
  file_data :: bytes

definition startswith :: "string \<Rightarrow> string \<Rightarrow> bool" where
  "startswith s p = (take (length p) s = p)"

text \<open>Lines 377-383: the request parameters built from the form fields.\<close>

definition request_params_of ::
  "string \<Rightarrow> string option \<Rightarrow> int \<Rightarrow> string \<Rightarrow> ImageTo3DRequest" where
  "request_params_of mv sty tex rem =
     \<lparr>model_version = Some mv,
      style = (case sty of
                 Some v \<Rightarrow> (if v \<noteq> [] \<and> v \<noteq> ''none'' then Some v else None)
               | None \<Rightarrow> None),
      texture_resolution = Some tex,
      remesh = Some rem\<rparr>"

text \<open>Lines 361-366: the size check. An absent or zero \<^verbatim>\<open>file.size\<close> is falsy.\<close>

definition size_too_large :: "int option \<Rightarrow> bool" where
  "size_too_large sz =
     (case sz of None \<Rightarrow> False | Some n \<Rightarrow> n \<noteq> 0 \<and> n > 10 * 1024 * 1024)"

text \<open>
  Lines 369-408: the body of the \<^verbatim>\<open>try\<close> block of \<^verbatim>\<open>convert_image_to_3d\<close>.
  \<open>now\<close> is \<^verbatim>\<open>int(datetime.now().timestamp())\<close>.
\<close>

definition convert_try ::
  "'img pil \<Rightarrow> validators \<Rightarrow> (string \<Rightarrow> bytes \<Rightarrow> http_outcome) \<Rightarrow> (json \<Rightarrow> http_outcome)
     \<Rightarrow> int \<Rightarrow> UploadFile \<Rightarrow> ImageTo3DRequest \<Rightarrow> server \<Rightarrow> exn + (json \<times> server)" where
  "convert_try P V post_upload post_task now file request_params srv =
     (let image_data = file_data file in
      if length image_data = 0 then Inl (HTTPException 400 ReceivedEmptyFile)
      else
        (case upload_image P post_upload image_data
                (case filename file of
                   Some n \<Rightarrow> (if n \<noteq> [] then n else ''image.jpg'')
                 | None \<Rightarrow> ''image.jpg'') of
           Inl e \<Rightarrow> Inl e
         | Inr file_token \<Rightarrow>
        (case create_task post_task file_token request_params of
           Inl e \<Rightarrow> Inl e
         | Inr tid \<Rightarrow>
        (case validate_str V tid of
           None \<Rightarrow> Inl (Raised ValidationError)
         | Some tid' \<Rightarrow>
        (case store tid
                \<lparr>task_id = tid', status = QUEUED, input = None, output = None,
                 progress = None, created_time = Some now\<rparr>
                (task_storage srv) of
           Inl e \<Rightarrow> Inl e
         | Inr st' \<Rightarrow>
             Inr (JObj [(''task_id'', tid), (''status'', JStr ''queued''),
                        (''message'', JStr ''Image uploaded and conversion task started'')],
                  srv\<lparr>task_storage := st',
                      background_tasks := background_tasks srv @ [tid]\<rparr>))))))"

text \<open>
  The handlers end with \<^verbatim>\<open>except HTTPException: raise\<close> and
  \<^verbatim>\<open>except Exception as e: raise HTTPException(500, ...)\<close>.
\<close>

fun reraise :: "(pyerr \<Rightarrow> detail) \<Rightarrow> exn \<Rightarrow> exn" where
  "reraise f (HTTPException c d) = HTTPException c d"
| "reraise f (Raised e) = HTTPException 500 (f e)"

text \<open>
  \<^verbatim>\<open>convert_image_to_3d\<close>, lines 337-414. \<open>configured\<close> says that
  \<^verbatim>\<open>tripo3d_client\<close> is not \<^verbatim>\<open>None\<close>. The result is the handler's answer and the
  server's state after it.
\<close>

definition convert_image_to_3d ::
  "'img pil \<Rightarrow> validators \<Rightarrow> bool \<Rightarrow> (string \<Rightarrow> bytes \<Rightarrow> http_outcome)
     \<Rightarrow> (json \<Rightarrow> http_outcome) \<Rightarrow> int \<Rightarrow> UploadFile \<Rightarrow> string \<Rightarrow> string option \<Rightarrow> int
     \<Rightarrow> string \<Rightarrow> server \<Rightarrow> (exn + json) \<times> server" where
  "convert_image_to_3d P V configured post_upload post_task now file mv sty tex rem srv =
     (if \<not> configured then (Inl (HTTPException 500 ApiKeyNotConfigured), srv)
      else if (case content_type file of
                 None \<Rightarrow> True
               | Some ct \<Rightarrow> ct = [] \<or> \<not> startswith ct ''image/'') then
        (Inl (HTTPException 400 (FileMustBeAnImage (content_type file))), srv)
      else if size_too_large (file_size file) then
        (Inl (HTTPException 400 FileSizeTooLarge), srv)
      else
        (case convert_try P V post_upload post_task now file
                (request_params_of mv sty tex rem) srv of
           Inl e \<Rightarrow> (Inl (reraise InternalError e), srv)
         | Inr (answer, srv') \<Rightarrow> (Inr answer, srv')))"

text \<open>The status handler \<^verbatim>\<open>get_task_status\<close>, lines 416-439.\<close>

definition get_task_status ::
  "validators \<Rightarrow> bool \<Rightarrow> (json \<Rightarrow> http_outcome) \<Rightarrow> string \<Rightarrow> server
     \<Rightarrow> (exn + TaskResponse) \<times> server" where
  "get_task_status V configured get tid srv =
     (if \<not> configured then (Inl (HTTPException 500 ApiKeyNotConfigured), srv)
      else
        (case Tripo3DClient_get_task_status V get (JStr tid) of
           Inl e \<Rightarrow> (Inl (reraise StrOf e), srv)
         | Inr task_response \<Rightarrow>
             (case store (JStr tid) task_response (task_storage srv) of
                Inl e \<Rightarrow> (Inl (reraise StrOf e), srv)
              | Inr st' \<Rightarrow> (Inr task_response, srv\<lparr>task_storage := st'\<rparr>))))"

text \<open>
  \<^verbatim>\<open>list(model_urls.keys())\<close>: the keys of a dict, \<^verbatim>\<open>AttributeError\<close> otherwise.
\<close>

fun py_keys :: "json \<Rightarrow> exn + string list" where
  "py_keys (JObj kvs) = Inr (map fst kvs)"
| "py_keys _ = Inl (Raised AttributeError)"

text \<open>
  Lines 452-487: the body of the \<^verbatim>\<open>try\<close> block of \<^verbatim>\<open>download_3d_model\<close>. The
  answer is the path and the download name given to \<^verbatim>\<open>FileResponse\<close>.
\<close>

definition download_try ::
  "validators \<Rightarrow> (json \<Rightarrow> http_outcome) \<Rightarrow> (json \<Rightarrow> http_outcome)
     \<Rightarrow> (string \<Rightarrow> bytes \<Rightarrow> pyerr option) \<Rightarrow> string \<Rightarrow> string \<Rightarrow> exn + (string \<times> string)" where
  "download_try V get_status get_file write_file tid format =
     (case Tripo3DClient_get_task_status V get_status (JStr tid) of
        Inl e \<Rightarrow> Inl e
      | Inr task_response \<Rightarrow>
     (if status task_response \<noteq> SUCCESS then
        Inl (HTTPException 400 (TaskNotCompleted (status task_response)))
      else
     (case output task_response of
        None \<Rightarrow> Inl (HTTPException 404 ModelNotFound)
      | Some out \<Rightarrow>
     (if out = [] \<or> ''model'' \<notin> set (map fst out) then
        Inl (HTTPException 404 ModelNotFound)
      else
     (case py_getitem (JObj out) ''model'' of
        Inl e \<Rightarrow> Inl e
      | Inr model \<Rightarrow>
     (case py_getitem model ''urls'' of
        Inl e \<Rightarrow> Inl e
      | Inr model_urls \<Rightarrow>
     (case py_in format model_urls of
        Inl e \<Rightarrow> Inl e
      | Inr False \<Rightarrow>
          (case py_keys model_urls of
             Inl e \<Rightarrow> Inl e
           | Inr available_formats \<Rightarrow>
               Inl (HTTPException 400 (FormatNotAvailable format available_formats)))
      | Inr True \<Rightarrow>
     (case py_getitem model_urls format of
        Inl e \<Rightarrow> Inl e
      | Inr download_url \<Rightarrow>
     (let fname = tid @ ''.'' @ format in
      case download_file get_file write_file download_url fname of
        Inl e \<Rightarrow> Inl e
      | Inr file_path \<Rightarrow> Inr (file_path, fname))))))))))"

text \<open>\<^verbatim>\<open>download_3d_model\<close>, lines 441-493.\<close>

definition download_3d_model ::
  "validators \<Rightarrow> bool \<Rightarrow> (json \<Rightarrow> http_outcome) \<Rightarrow> (json \<Rightarrow> http_outcome)
     \<Rightarrow> (string \<Rightarrow> bytes \<Rightarrow> pyerr option) \<Rightarrow> string \<Rightarrow> string \<Rightarrow> exn + (string \<times> string)" where
  "download_3d_model V configured get_status get_file write_file tid format =
     (if \<not> configured then Inl (HTTPException 500 ApiKeyNotConfigured)
      else
        (case download_try V get_status get_file write_file tid format of
           Inl e \<Rightarrow> Inl (reraise StrOf e)
         | Inr answer \<Rightarrow> Inr answer))"

section \<open>The background poller: \<^verbatim>\<open>monitor_task_progress\<close>\<close>

text \<open>
  The loop of lines 500-520. \<open>remote i\<close> is the status endpoint as it answers the query
  of attempt \<open>i\<close>. The state is the tracker, the attempt counter and the number of status
  queries issued so far. Every exception raised inside the \<^verbatim>\<open>try\<close> is caught and
  costs one attempt; a terminal status leaves the loop without touching the counter.
\<close>

record monitor_state =
  storage :: task_storage
  attempt :: nat
  queries :: nat

definition max_attempts :: nat where
  "max_attempts = 120"

definition terminal :: "TaskStatus \<Rightarrow> bool" where
  "terminal st = (st = SUCCESS \<or> st = FAILED)"

function monitor_loop ::
  "validators \<Rightarrow> bool \<Rightarrow> (nat \<Rightarrow> json \<Rightarrow> http_outcome) \<Rightarrow> json \<Rightarrow> monitor_state
     \<Rightarrow> monitor_state" where
  "monitor_loop V configured remote tid s =
     (if attempt s < max_attempts then
        (if \<not> configured then s
         else
           (case Tripo3DClient_get_task_status V (remote (attempt s)) tid of
              Inl e \<Rightarrow>
                monitor_loop V configured remote tid
                  (s\<lparr>attempt := attempt s + 1, queries := queries s + 1\<rparr>)
            | Inr task_response \<Rightarrow>
                (case store tid task_response (storage s) of
                   Inl e \<Rightarrow>
                     monitor_loop V configured remote tid
                       (s\<lparr>attempt := attempt s + 1, queries := queries s + 1\<rparr>)
                 | Inr st' \<Rightarrow>
                     (if terminal (status task_response) then
                        s\<lparr>storage := st', queries := queries s + 1\<rparr>
                      else
                        monitor_loop V configured remote tid
                          (s\<lparr>storage := st', attempt := attempt s + 1,
                             queries := queries s + 1\<rparr>)))))
      else s)"
  by pat_completeness auto
termination
  by (relation "measure (\<lambda>(V, configured, remote, tid, s). max_attempts - attempt s)") auto

declare monitor_loop.simps [simp del]

definition monitor_task_progress ::
  "validators \<Rightarrow> bool \<Rightarrow> (nat \<Rightarrow> json \<Rightarrow> http_outcome) \<Rightarrow> json \<Rightarrow> task_storage
     \<Rightarrow> monitor_state" where
  "monitor_task_progress V configured remote tid st =
     monitor_loop V configured remote tid \<lparr>storage = st, attempt = 0, queries = 0\<rparr>"

section \<open>Notions used to state the properties\<close>

text \<open>A member of a JSON object, if the value is an object and has it.\<close>

fun field :: "json \<Rightarrow> string \<Rightarrow> json option" where
  "field (JObj kvs) k = map_of kvs k"
| "field _ k = None"

fun first_present :: "'a option list \<Rightarrow> 'a option" where
  "first_present [] = None"
| "first_present (None # xs) = first_present xs"
| "first_present (Some x # xs) = Some x"

text \<open>
  The six places of an upload response where a token may stand, in the documented order:
  \<^verbatim>\<open>data.image_token\<close>, \<^verbatim>\<open>data.token\<close>, \<^verbatim>\<open>data.file_token\<close>, a string-valued
  \<^verbatim>\<open>data\<close>, then top-level \<^verbatim>\<open>token\<close> and \<^verbatim>\<open>image_token\<close>.
\<close>

definition data_locations :: "json \<Rightarrow> json option list" where
  "data_locations result =
     [Option.bind (field result ''data'') (\<lambda>d. field d ''image_token''),
      Option.bind (field result ''data'') (\<lambda>d. field d ''token''),
      Option.bind (field result ''data'') (\<lambda>d. field d ''file_token''),
      (case field result ''data'' of Some (JStr s) \<Rightarrow> Some (JStr s) | _ \<Rightarrow> None)]"

definition top_locations :: "json \<Rightarrow> json option list" where
  "top_locations result = [field result ''token'', field result ''image_token'']"

text \<open>The documented rule: the first of the six places that holds a value.\<close>

definition first_of_six :: "json \<Rightarrow> json option" where
  "first_of_six result = first_present (data_locations result @ top_locations result)"

text \<open>
  The rule with the top-level places consulted only by a response that has no
  \<^verbatim>\<open>data\<close> member.
\<close>

definition first_by_shape :: "json \<Rightarrow> json option" where
  "first_by_shape result =
     first_present (data_locations result
       @ (if field result ''data'' = None then top_locations result else []))"

text \<open>The value at \<^verbatim>\<open>data.status\<close> of a status response, if there is one.\<close>

definition data_status :: "json \<Rightarrow> json option" where
  "data_status result = Option.bind (field result ''data'') (\<lambda>d. field d ''status'')"

definition status_values :: "json set" where
  "status_values = {JStr ''queued'', JStr ''running'', JStr ''success'', JStr ''failed''}"

text \<open>
  What the poller's query of attempt \<open>i\<close> gives, whether that is a terminal snapshot,
  and the last snapshot obtained in the attempts below \<open>n\<close>.
\<close>

definition poll ::
  "validators \<Rightarrow> (nat \<Rightarrow> json \<Rightarrow> http_outcome) \<Rightarrow> json \<Rightarrow> nat \<Rightarrow> exn + TaskResponse" where
  "poll V remote tid i = Tripo3DClient_get_task_status V (remote i) tid"

definition sees_terminal :: "exn + TaskResponse \<Rightarrow> bool" where
  "sees_terminal x = (case x of Inl e \<Rightarrow> False | Inr r \<Rightarrow> terminal (status r))"

fun last_snapshot :: "(nat \<Rightarrow> exn + TaskResponse) \<Rightarrow> nat \<Rightarrow> TaskResponse option" where
  "last_snapshot p 0 = None"
| "last_snapshot p (Suc n) = (case p n of Inl e \<Rightarrow> last_snapshot p n | Inr r \<Rightarrow> Some r)"

definition overwrite :: "task_storage \<Rightarrow> json \<Rightarrow> TaskResponse option \<Rightarrow> task_storage" where
  "overwrite st k snap = (case snap of None \<Rightarrow> st | Some r \<Rightarrow> st(k \<mapsto> r))"

text \<open>
  The operations that write the tracker, with the inputs each one reads from outside,
  and a run of the server over a list of them.
\<close>

datatype event =
    Submit "string \<Rightarrow> bytes \<Rightarrow> http_outcome" "json \<Rightarrow> http_outcome" int UploadFile
      string "string option" int string
  | StatusQuery "json \<Rightarrow> http_outcome" string
  | BackgroundPoll "nat \<Rightarrow> json \<Rightarrow> http_outcome" json

fun apply_event :: "'img pil \<Rightarrow> validators \<Rightarrow> bool \<Rightarrow> server \<Rightarrow> event \<Rightarrow> server" where
  "apply_event P V configured srv (Submit post_upload post_task now file mv sty tex rem) =
     snd (convert_image_to_3d P V configured post_upload post_task now file mv sty tex rem srv)"
| "apply_event P V configured srv (StatusQuery get tid) =
     snd (get_task_status V configured get tid srv)"
| "apply_event P V configured srv (BackgroundPoll remote tid) =
     srv\<lparr>task_storage :=
       storage (monitor_task_progress V configured remote tid (task_storage srv))\<rparr>"

definition run :: "'img pil \<Rightarrow> validators \<Rightarrow> bool \<Rightarrow> event list \<Rightarrow> server" where
  "run P V configured events =
     foldl (apply_event P V configured) \<lparr>task_storage = Map.empty, background_tasks = []\<rparr>
       events"



section \<open>Concrete inputs\<close>

text \<open>
  A small image library for running the model: an image is its mode and size, a file
  decodes when it has a three-byte header (mode, width, height), a band list has one
  band per letter of the mode, and the encoder writes quality, width and height.
\<close>

type_synonym stub_image = "string \<times> int \<times> int"

definition stub_open :: "bytes \<Rightarrow> pyerr + stub_image" where
  "stub_open bs =
     (case bs of
        m # w # h # rest \<Rightarrow>
          Inr (if m = 0 then ''RGB'' else if m = 1 then ''RGBA'' else ''P'', uint w, uint h)
      | _ \<Rightarrow> Inl ImageError)"

definition stub_thumbnail :: "stub_image \<Rightarrow> int \<times> int \<Rightarrow> pyerr + stub_image" where
  "stub_thumbnail img box =
     (case img of (m, w, h) \<Rightarrow>
        Inr (if w \<ge> h then (m, fst box, max 1 (h * fst box div w))
             else (m, max 1 (w * snd box div h), snd box)))"

definition stub_pil :: "stub_image pil" where
  "stub_pil =
     \<lparr>pil_open = stub_open,
      img_mode = fst,
      img_has_transparency = (\<lambda>img. False),
      img_size = snd,
      img_convert = (\<lambda>img m. Inr (m, snd img)),
      pil_new = (\<lambda>m sz colour. Inr (m, sz)),
      img_split = (\<lambda>img. Inr (map (\<lambda>c. (''L'', snd img)) (fst img))),
      img_paste = (\<lambda>background img alpha. Inr background),
      img_thumbnail = stub_thumbnail,
      img_save = (\<lambda>img q. Inr [of_nat q, of_int (fst (snd img)), of_int (snd (snd img))])\<rparr>"

text \<open>Validators that accept a value of the field's own JSON type and nothing else.\<close>

definition strict_validators :: validators where
  "strict_validators =
     \<lparr>validate_str = (\<lambda>j. case j of JStr s \<Rightarrow> Some s | _ \<Rightarrow> None),
      validate_dict = (\<lambda>j. case j of JObj kvs \<Rightarrow> Some kvs | _ \<Rightarrow> None),
      validate_int = (\<lambda>j. case j of JInt n \<Rightarrow> Some n | _ \<Rightarrow> None)\<rparr>"

text \<open>A 200 response with a JSON body, and endpoints that always give one answer.\<close>

definition ok_response :: "json \<Rightarrow> response" where
  "ok_response body =
     \<lparr>status_code = 200, body_text = [], json_body = Some body, content = []\<rparr>"

definition answers :: "json \<Rightarrow> 'a \<Rightarrow> http_outcome" where
  "answers body request = Inr (ok_response body)"

definition upload_answers :: "json \<Rightarrow> string \<Rightarrow> bytes \<Rightarrow> http_outcome" where
  "upload_answers body name sent = Inr (ok_response body)"

text \<open>
  A status endpoint that plays a script: attempt \<open>i\<close> gets the \<open>i\<close>-th body, and a
  timeout once the script is over.
\<close>

definition script :: "json list \<Rightarrow> nat \<Rightarrow> json \<Rightarrow> http_outcome" where
  "script bodies i request =
     (if i < length bodies then Inr (ok_response (bodies ! i)) else Inl TimeoutException)"

definition status_body :: "string \<Rightarrow> json" where
  "status_body s = JObj [(''data'', JObj [(''status'', JStr s)])]"

definition snapshot :: "string \<Rightarrow> TaskStatus \<Rightarrow> TaskResponse" where
  "snapshot tid st =
     \<lparr>task_id = tid, status = st, input = None, output = None, progress = None,
      created_time = None\<rparr>"

text \<open>An upload that declares no size, and an empty server.\<close>

definition unsized_upload :: UploadFile where
  "unsized_upload =
     \<lparr>content_type = Some ''image/png'', file_size = None, filename = Some ''cat.png'',
      file_data = [0, 10, 10]\<rparr>"

definition empty_server :: server where
  "empty_server = \<lparr>task_storage = Map.empty, background_tasks = []\<rparr>"

text \<open>
  A successful status body whose output offers one format, and a file system on which
  every write succeeds.
\<close>

definition model_body :: json where
  "model_body =
     JObj [(''data'', JObj [(''status'', JStr ''success''),
       (''output'', JObj [(''model'', JObj [(''urls'',
          JObj [(''glb'', JStr ''https://files/m.glb'')])])])])]"

definition disk_ok :: "string \<Rightarrow> bytes \<Rightarrow> pyerr option" where
  "disk_ok path written = None"

text \<open>A status endpoint that gives the same body at every attempt.\<close>

definition steady :: "json \<Rightarrow> nat \<Rightarrow> json \<Rightarrow> http_outcome" where
  "steady body i request = Inr (ok_response body)"

text \<open>
  The tracker's invariant: every entry's snapshot carries the task id that the
  \<^verbatim>\<open>str\<close> field validator made of a key the entry is found under.
\<close>

definition own_keys :: "validators \<Rightarrow> task_storage \<Rightarrow> bool" where
  "own_keys V st =
     (\<forall>c r. st c = Some r \<longrightarrow> (\<exists>k. dict_key k = c \<and> validate_str V k = Some (task_id r)))"

text \<open>A submission that the remote accepts as task \<^verbatim>\<open>t-1\<close>, then its poller.\<close>

definition sample_events :: "event list" where
  "sample_events =
     [Submit (upload_answers (JObj [(''data'', JStr ''tok-1'')]))
        (answers (JObj [(''data'', JObj [(''task_id'', JStr ''t-1'')])]))
        1700000000 unsized_upload ''v2.0-20240919'' None 1024 ''none'',
      BackgroundPoll (script (map status_body [''success''])) (JStr ''t-1'')]"

text \<open>Whether a decoded body has a \<^verbatim>\<open>data\<close> member that is an object.\<close>

definition has_data_object :: "json \<Rightarrow> bool" where
  "has_data_object result =
     (case field result ''data'' of Some (JObj d) \<Rightarrow> True | _ \<Rightarrow> False)"

text \<open>
  \<^verbatim>\<open>str(n)\<close> for an integer, and validators whose \<^verbatim>\<open>str\<close> field also accepts an
  integer and turns it into that text, as a coercing validator does.
\<close>

function dec :: "nat \<Rightarrow> string" where
  "dec n =
     (if n < 10 then [''0123456789'' ! n]
      else dec (n div 10) @ [''0123456789'' ! (n mod 10)])"
  by pat_completeness auto
termination
  by (relation "measure id") auto

declare dec.simps [simp del]

definition py_str :: "int \<Rightarrow> string" where
  "py_str i = (if i < 0 then CHR ''-'' # dec (nat (- i)) else dec (nat i))"

definition coercing_validators :: validators where
  "coercing_validators =
     \<lparr>validate_str = (\<lambda>j. case j of JStr s \<Rightarrow> Some s | JInt n \<Rightarrow> Some (py_str n) | _ \<Rightarrow> None),
      validate_dict = (\<lambda>j. case j of JObj kvs \<Rightarrow> Some kvs | _ \<Rightarrow> None),
      validate_int = (\<lambda>j. case j of JInt n \<Rightarrow> Some n | _ \<Rightarrow> None)\<rparr>"

text \<open>A submission that the remote accepts under the numeric task id 77.\<close>

definition numeric_id_events :: "event list" where
  "numeric_id_events =
     [Submit (upload_answers (JObj [(''data'', JStr ''tok-1'')]))
        (answers (JObj [(''data'', JObj [(''task_id'', JInt 77)])]))
        1700000000 unsized_upload ''v2.0-20240919'' None 1024 ''none'']"






section \<open>Properties\<close>

subsection \<open>Token extraction\<close>

lemma key_in_iff: "(k \<in> fst ` set kvs) = (\<exists>v. map_of kvs k = Some v)"
  using map_of_eq_None_iff[of kvs k] by auto

lemma probe_keys3:
  "probe_keys [a, b, c] d = first_present [map_of d a, map_of d b, map_of d c]"
  by (cases "map_of d a"; cases "map_of d b"; cases "map_of d c")
     (simp_all add: key_in_iff)

lemma extract_token_obj:
  "extract_token (JObj kvs) =
     (case first_by_shape (JObj kvs) of
        Some tok \<Rightarrow> Inr tok
      | None \<Rightarrow> Inl (HTTPException 500 (CouldNotExtractToken (JObj kvs))))"
proof (cases "map_of kvs ''data''")
  case None
  then show ?thesis
    by (cases "map_of kvs ''token''"; cases "map_of kvs ''image_token''")
       (simp_all add: extract_token_def first_by_shape_def data_locations_def
          top_locations_def key_in_iff Let_def)
next
  case (Some d)
  show ?thesis
  proof (cases d)
    case (JObj dk)
    with Some show ?thesis
      by (cases "map_of dk ''image_token''"; cases "map_of dk ''token''";
          cases "map_of dk ''file_token''")
         (simp_all add: extract_token_def first_by_shape_def data_locations_def
            key_in_iff Let_def probe_keys3 del: probe_keys.simps)
  qed (use Some in \<open>simp_all add: extract_token_def first_by_shape_def data_locations_def
            key_in_iff Let_def\<close>)
qed

text \<open>
  C1, as the code has it: for a 200 upload response whose body is a JSON object,
  \<^verbatim>\<open>upload_image\<close> returns the value at the first place that holds one, where the
  places are \<^verbatim>\<open>data.image_token\<close>, \<^verbatim>\<open>data.token\<close>, \<^verbatim>\<open>data.file_token\<close>, a
  string-valued \<^verbatim>\<open>data\<close> and, only when the body has no \<^verbatim>\<open>data\<close> member at all,
  top-level \<^verbatim>\<open>token\<close> and \<^verbatim>\<open>image_token\<close>; when none of these holds a value it
  raises the 500 error that carries the body.
\<close>

theorem upload_image_token_by_shape:
  assumes "post name (optimize_image_for_upload P image_data 1024) = Inr response"
    and "status_code response = 200"
    and "json_body response = Some (JObj kvs)"
  shows "upload_image P post image_data name =
     (case first_by_shape (JObj kvs) of
        Some tok \<Rightarrow> Inr tok
      | None \<Rightarrow> Inl (HTTPException 500 (CouldNotExtractToken (JObj kvs))))"
  using assms by (simp add: upload_image_def extract_token_obj)

theorem upload_image_token_by_shape_witness:
  "upload_image stub_pil
     (upload_answers (JObj [(''code'', JInt 0), (''data'', JObj [(''token'', JStr ''tok-1'')])]))
     [1, 2, 3] ''cat.png'' = Inr (JStr ''tok-1'')"
  using upload_image_token_by_shape
    [of "upload_answers (JObj [(''code'', JInt 0), (''data'', JObj [(''token'', JStr ''tok-1'')])])"
        "''cat.png''" stub_pil "[1, 2, 3]"
        "ok_response (JObj [(''code'', JInt 0), (''data'', JObj [(''token'', JStr ''tok-1'')])])"
        "[(''code'', JInt 0), (''data'', JObj [(''token'', JStr ''tok-1'')])]"]
  by (simp add: upload_answers_def ok_response_def first_by_shape_def data_locations_def)

text \<open>
  The documented rule fails on a body that has a \<^verbatim>\<open>data\<close> object without a token
  beside a top-level \<^verbatim>\<open>token\<close>: the fifth place holds \<^verbatim>\<open>abc\<close>, and the client
  raises.
\<close>

theorem upload_image_first_of_six_counterexample:
  "first_of_six (JObj [(''data'', JObj []), (''token'', JStr ''abc'')]) = Some (JStr ''abc'')
   \<and> upload_image stub_pil
       (upload_answers (JObj [(''data'', JObj []), (''token'', JStr ''abc'')]))
       [1, 2, 3] ''cat.png''
     = Inl (HTTPException 500
         (CouldNotExtractToken (JObj [(''data'', JObj []), (''token'', JStr ''abc'')])))"
  by (simp add: first_of_six_def data_locations_def top_locations_def upload_image_def
      upload_answers_def ok_response_def extract_token_def)

subsection \<open>The image normalizer\<close>

text \<open>Where the \<^verbatim>\<open>try\<close> block raises: decoding, or any later step.\<close>

lemma optimize_try_decode_failure:
  "pil_open P image_data = Inl e \<Longrightarrow> optimize_try P image_data max_size = Inl e"
  by (simp add: optimize_try_def)

lemma optimize_try_step_failure:
  assumes "pil_open P image_data = Inr img"
    and "to_rgb P img = Inl e
         \<or> (\<exists>rgb. to_rgb P img = Inr rgb
               \<and> (resize_if_large P rgb max_size = Inl e
                    \<or> (\<exists>small. resize_if_large P rgb max_size = Inr small
                          \<and> encode_jpeg P small = Inl e)))"
  shows "optimize_try P image_data max_size = Inl e"
  using assms by (auto simp: optimize_try_def)

lemma encode_jpeg_failure:
  "img_save P img 85 = Inl e \<Longrightarrow> encode_jpeg P img = Inl e"
  by (simp add: encode_jpeg_def)

lemma resize_if_large_failure:
  "max (fst (img_size P img)) (snd (img_size P img)) > max_size
   \<Longrightarrow> img_thumbnail P img (max_size, max_size) = Inl e
   \<Longrightarrow> resize_if_large P img max_size = Inl e"
  by (simp add: resize_if_large_def)

text \<open>The guard of line 98: an image within the maximum is handed on as it is.\<close>

lemma resize_if_large_within:
  "max (fst (img_size P img)) (snd (img_size P img)) \<le> max_size
   \<Longrightarrow> resize_if_large P img max_size = Inr img"
  by (auto simp: resize_if_large_def)

text \<open>
  C5: whenever the body of the \<^verbatim>\<open>try\<close> block raises (decoding or any processing
  step), \<^verbatim>\<open>optimize_image_for_upload\<close> returns exactly the bytes it was given.
\<close>

theorem optimize_image_fallback:
  "optimize_try P image_data max_size = Inl e
   \<Longrightarrow> optimize_image_for_upload P image_data max_size = image_data"
  by (simp add: optimize_image_for_upload_def)

theorem optimize_image_fallback_witness:
  "optimize_try stub_pil [7, 9] 1024 = Inl ImageError
   \<and> optimize_image_for_upload stub_pil [7, 9] 1024 = [7, 9]"
  using optimize_image_fallback [of stub_pil "[7, 9]" 1024 ImageError]
  by (simp add: optimize_try_def stub_pil_def stub_open_def)

subsection \<open>The request parameters\<close>

lemma map_of_extra_style:
  "map_of (create_task_extra ps) ''style''
     = (case style ps of
          Some v \<Rightarrow> (if v \<noteq> [] \<and> v \<noteq> ''none'' then Some (JStr v) else None)
        | None \<Rightarrow> None)"
  by (simp add: create_task_extra_def map_add_def split: option.splits)

lemma map_of_extra_remesh:
  "map_of (create_task_extra ps) ''remesh''
     = (case remesh ps of
          Some v \<Rightarrow> (if v \<noteq> [] \<and> v \<noteq> ''none'' then Some (JStr v) else None)
        | None \<Rightarrow> None)"
  by (simp add: create_task_extra_def map_add_def split: option.splits)

text \<open>
  C3, as the code has it: the submit handler maps a style of \<^verbatim>\<open>none\<close> to an unset
  field, and a remesh of \<^verbatim>\<open>none\<close> stays in the parameters object as the string
  \<^verbatim>\<open>none\<close>. For any parameters object, \<^verbatim>\<open>create_task\<close> puts style (and likewise
  remesh) into \<^verbatim>\<open>extra\<close> exactly when it is set, not empty and not \<^verbatim>\<open>none\<close>,
  with its own value, and leaves it out otherwise; the payload carries \<^verbatim>\<open>extra\<close>
  exactly when it is not empty.
\<close>

theorem request_params_none_sentinels:
  "style (request_params_of mv (Some ''none'') tex rem) = None
   \<and> remesh (request_params_of mv sty tex ''none'') = Some ''none''
   \<and> map_of (create_task_extra ps) ''style''
       = (case style ps of
            Some v \<Rightarrow> (if v \<noteq> [] \<and> v \<noteq> ''none'' then Some (JStr v) else None)
          | None \<Rightarrow> None)
   \<and> map_of (create_task_extra ps) ''remesh''
       = (case remesh ps of
            Some v \<Rightarrow> (if v \<noteq> [] \<and> v \<noteq> ''none'' then Some (JStr v) else None)
          | None \<Rightarrow> None)
   \<and> field (create_task_payload tok ps) ''extra''
       = (if create_task_extra ps = [] then None else Some (JObj (create_task_extra ps)))"
  by (simp add: map_of_extra_style map_of_extra_remesh request_params_of_def
      create_task_payload_def Let_def)

text \<open>The remesh field of the constructed parameters is not unset.\<close>

theorem request_params_remesh_counterexample:
  "remesh (request_params_of ''v2.0-20240919'' (Some ''none'') 1024 ''none'') \<noteq> None"
  by (simp add: request_params_of_def)

subsection \<open>The size check of the submit handler\<close>

lemma translate_httpx_http:
  "translate_httpx a b e = HTTPException c d
   \<Longrightarrow> (c = 408 \<and> d = a) \<or> (c = 500 \<and> (\<exists>m. d = b m))"
  by (cases e) auto

lemma py_in_error: "py_in k j = Inl e \<Longrightarrow> \<exists>x. e = Raised x"
  by (cases j) auto

lemma py_getitem_error: "py_getitem j k = Inl e \<Longrightarrow> \<exists>x. e = Raised x"
  by (cases j) (auto split: option.splits)

lemma extract_token_error:
  "extract_token r = Inl e
   \<Longrightarrow> e = HTTPException 500 (CouldNotExtractToken r) \<or> (\<exists>x. e = Raised x)"
  by (auto simp: extract_token_def Let_def
      split: sum.splits bool.splits json.splits option.splits
      dest: py_in_error py_getitem_error)

lemma extract_task_id_error:
  "extract_task_id r = Inl e
   \<Longrightarrow> e = HTTPException 500 (CouldNotExtractTaskId r) \<or> (\<exists>x. e = Raised x)"
  by (auto simp: extract_task_id_def Let_def
      split: sum.splits bool.splits
      dest: py_in_error py_getitem_error)

lemma upload_image_error:
  "upload_image P post d n = Inl e \<Longrightarrow> e \<noteq> HTTPException 400 FileSizeTooLarge"
  by (auto simp: upload_image_def Let_def split: sum.splits if_splits option.splits
      dest!: extract_token_error translate_httpx_http)

lemma create_task_error:
  "create_task post tok ps = Inl e \<Longrightarrow> e \<noteq> HTTPException 400 FileSizeTooLarge"
  by (auto simp: create_task_def split: sum.splits if_splits option.splits
      dest!: extract_task_id_error translate_httpx_http)

lemma convert_try_error:
  "convert_try P V post_upload post_task now file ps srv = Inl e
   \<Longrightarrow> e \<noteq> HTTPException 400 FileSizeTooLarge"
  by (auto simp: convert_try_def Let_def store_def
      split: sum.splits if_splits option.splits
      dest: upload_image_error create_task_error)

lemma reraise_internal_not_size:
  "e \<noteq> HTTPException 400 FileSizeTooLarge
   \<Longrightarrow> reraise InternalError e \<noteq> HTTPException 400 FileSizeTooLarge"
  by (cases e) auto

lemma convert_image_to_3d_not_size:
  assumes "\<not> size_too_large (file_size file)"
  shows "fst (convert_image_to_3d P V configured post_upload post_task now file
                mv sty tex rem srv)
        \<noteq> Inl (HTTPException 400 FileSizeTooLarge)"
proof (cases "convert_try P V post_upload post_task now file
                (request_params_of mv sty tex rem) srv")
  case (Inl e)
  then have "reraise InternalError e \<noteq> HTTPException 400 FileSizeTooLarge"
    by (intro reraise_internal_not_size convert_try_error)
  with Inl assms show ?thesis
    by (simp add: convert_image_to_3d_def)
next
  case (Inr a)
  with assms show ?thesis
    by (cases a) (simp add: convert_image_to_3d_def)
qed

text \<open>
  C9: when the declared size is absent or zero the size check is skipped, and whatever
  the body is, the submit handler does not answer with the 400 of the size limit.
\<close>

theorem size_check_skipped:
  assumes "file_size file = None \<or> file_size file = Some 0"
  shows "\<not> size_too_large (file_size file)
    \<and> fst (convert_image_to_3d P V configured post_upload post_task now
              (file\<lparr>file_data := body\<rparr>) mv sty tex rem srv)
        \<noteq> Inl (HTTPException 400 FileSizeTooLarge)"
proof -
  from assms have skip: "\<not> size_too_large (file_size file)"
    by (auto simp: size_too_large_def)
  then have "\<not> size_too_large (file_size (file\<lparr>file_data := body\<rparr>))"
    by simp
  from convert_image_to_3d_not_size [OF this] skip show ?thesis
    by blast
qed

theorem size_check_skipped_witness:
  "file_size unsized_upload = None
   \<and> \<not> size_too_large (file_size unsized_upload)
   \<and> fst (convert_image_to_3d stub_pil strict_validators True
             (upload_answers (JObj [(''data'', JStr ''tok-1'')]))
             (answers (JObj [(''data'', JObj [(''task_id'', JStr ''t-1'')])]))
             1700000000 (unsized_upload\<lparr>file_data := replicate 11000000 0\<rparr>)
             ''v2.0-20240919'' None 1024 ''none'' empty_server)
       \<noteq> Inl (HTTPException 400 FileSizeTooLarge)"
proof -
  have h: "file_size unsized_upload = None \<or> file_size unsized_upload = Some 0"
    by (simp add: unsized_upload_def)
  have "file_size unsized_upload = None"
    by (simp add: unsized_upload_def)
  with size_check_skipped [OF h] show ?thesis
    by blast
qed

subsection \<open>The status response\<close>

lemma field_eq_getitem:
  "py_getitem j k = Inr v \<Longrightarrow> field j k = Some v"
  by (cases j) (auto split: option.splits)

lemma TaskStatus_of_Inr:
  "TaskStatus_of v = Inr st \<Longrightarrow> v \<in> status_values"
  by (auto simp: TaskStatus_of_def status_values_def split: if_splits)

lemma task_response_of_Inr:
  assumes "task_response_of V tid result = Inr t"
  shows "\<exists>v. data_status result = Some v \<and> v \<in> status_values
             \<and> TaskStatus_of v = Inr (status t)"
proof -
  from assms obtain data where d: "py_getitem result ''data'' = Inr data"
    by (auto simp: task_response_of_def split: sum.splits bool.splits)
  from assms d obtain sv where sv: "py_getitem data ''status'' = Inr sv"
    by (auto simp: task_response_of_def split: sum.splits bool.splits)
  from assms d sv obtain st where st: "TaskStatus_of sv = Inr st"
    by (auto simp: task_response_of_def split: sum.splits bool.splits)
  from assms d sv st have "status t = st"
    by (auto simp: task_response_of_def split: sum.splits bool.splits option.splits)
  moreover from d sv have "data_status result = Some sv"
    by (simp add: data_status_def field_eq_getitem)
  moreover from st have "sv \<in> status_values"
    by (rule TaskStatus_of_Inr)
  ultimately show ?thesis
    using st by simp
qed

lemma get_task_status_Inr:
  assumes "Tripo3DClient_get_task_status V get tid = Inr t"
  shows "\<exists>response result. get tid = Inr response \<and> status_code response = 200
           \<and> json_body response = Some result
           \<and> task_response_of V tid result = Inr t"
  using assms
  by (auto simp: Tripo3DClient_get_task_status_def split: sum.splits if_splits option.splits)

text \<open>
  C8, as the code has it: a 200 status response whose decoded body is a JSON object
  with no \<^verbatim>\<open>data\<close> member makes \<^verbatim>\<open>Tripo3DClient.get_task_status\<close> raise the
  500 error that carries the body; and a response whose \<^verbatim>\<open>data.status\<close> is missing
  or is not one of the four status strings makes it fail: whenever it returns a
  snapshot, the snapshot's status is the enumeration member of the value found at
  \<^verbatim>\<open>data.status\<close>.
\<close>

theorem get_task_status_malformed:
  assumes "get tid = Inr response" and "json_body response = Some result"
  shows "(status_code response = 200
            \<and> (\<exists>kvs. result = JObj kvs \<and> ''data'' \<notin> set (map fst kvs)) \<longrightarrow>
            Tripo3DClient_get_task_status V get tid
              = Inl (HTTPException 500 (InvalidTaskStatusResponseFormat result)))
       \<and> (data_status result \<notin> Some ` status_values \<longrightarrow>
            (\<exists>e. Tripo3DClient_get_task_status V get tid = Inl e))
       \<and> (\<forall>t. Tripo3DClient_get_task_status V get tid = Inr t \<longrightarrow>
            (\<exists>v. data_status result = Some v \<and> TaskStatus_of v = Inr (status t)))"
proof -
  have a: "status_code response = 200
            \<and> (\<exists>kvs. result = JObj kvs \<and> ''data'' \<notin> set (map fst kvs)) \<longrightarrow>
            Tripo3DClient_get_task_status V get tid
              = Inl (HTTPException 500 (InvalidTaskStatusResponseFormat result))"
    using assms by (auto simp: Tripo3DClient_get_task_status_def task_response_of_def)
  have c: "\<exists>v. data_status result = Some v \<and> v \<in> status_values
                 \<and> TaskStatus_of v = Inr (status t)"
    if "Tripo3DClient_get_task_status V get tid = Inr t" for t
    using get_task_status_Inr [OF that] assms task_response_of_Inr by fastforce
  have b: "data_status result \<notin> Some ` status_values \<longrightarrow>
            (\<exists>e. Tripo3DClient_get_task_status V get tid = Inl e)"
  proof
    assume n: "data_status result \<notin> Some ` status_values"
    show "\<exists>e. Tripo3DClient_get_task_status V get tid = Inl e"
    proof (cases "Tripo3DClient_get_task_status V get tid")
      case (Inr t)
      from c [OF this] n show ?thesis by auto
    qed simp
  qed
  from a b c show ?thesis by blast
qed

theorem get_task_status_malformed_witness:
  "Tripo3DClient_get_task_status strict_validators
       (answers (JObj [(''code'', JInt 0), (''message'', JStr ''ok'')])) (JStr ''t-1'')
     = Inl (HTTPException 500
         (InvalidTaskStatusResponseFormat (JObj [(''code'', JInt 0), (''message'', JStr ''ok'')])))
   \<and> (\<exists>e. Tripo3DClient_get_task_status strict_validators
         (answers (status_body ''paused'')) (JStr ''t-1'') = Inl e)"
proof -
  let ?b = "JObj [(''code'', JInt 0), (''message'', JStr ''ok'')]"
  have 1: "Tripo3DClient_get_task_status strict_validators (answers ?b) (JStr ''t-1'')
     = Inl (HTTPException 500 (InvalidTaskStatusResponseFormat ?b))"
    using get_task_status_malformed
      [of "answers ?b" "JStr ''t-1''" "ok_response ?b" ?b strict_validators]
    by (simp add: answers_def ok_response_def)
  have 2: "\<exists>e. Tripo3DClient_get_task_status strict_validators
         (answers (status_body ''paused'')) (JStr ''t-1'') = Inl e"
    using get_task_status_malformed
      [of "answers (status_body ''paused'')" "JStr ''t-1''"
          "ok_response (status_body ''paused'')" "status_body ''paused''" strict_validators]
    by (simp add: answers_def ok_response_def status_body_def data_status_def
        status_values_def)
  from 1 2 show ?thesis by blast
qed

text \<open>
  A body whose \<^verbatim>\<open>data\<close> member is \<^verbatim>\<open>null\<close>, and the body \<^verbatim>\<open>null\<close>, lack a
  data object, and the client raises a bare \<^verbatim>\<open>TypeError\<close>; the status route turns
  it into a 500 that carries the error's text, not the body.
\<close>

theorem get_task_status_no_data_object_counterexample:
  "\<not> has_data_object (JObj [(''data'', JNull)])
   \<and> Tripo3DClient_get_task_status strict_validators (answers (JObj [(''data'', JNull)]))
        (JStr ''t-1'')
     = Inl (Raised TypeError)
   \<and> get_task_status strict_validators True (answers (JObj [(''data'', JNull)])) ''t-1''
        empty_server
     = (Inl (HTTPException 500 (StrOf TypeError)), empty_server)
   \<and> \<not> has_data_object JNull
   \<and> Tripo3DClient_get_task_status strict_validators (answers JNull) (JStr ''t-1'')
     = Inl (Raised TypeError)"
  by (simp add: has_data_object_def Tripo3DClient_get_task_status_def answers_def
      ok_response_def task_response_of_def get_task_status_def)

subsection \<open>The download handler\<close>

lemma getitem_of_field: "field j k = Some v \<Longrightarrow> py_getitem j k = Inr v"
  by (cases j) auto

lemma map_of_key: "map_of kvs k = Some v \<Longrightarrow> k \<in> fst ` set kvs"
  by (simp add: key_in_iff)

text \<open>
  C7: with the client configured and a freshly fetched snapshot \<open>t\<close>, the download
  handler answers 400 naming \<open>t\<close>'s status when it is not success; 404 when the task
  succeeded but its output is missing or has no \<^verbatim>\<open>model\<close> member; and 400 listing
  the keys of the \<^verbatim>\<open>urls\<close> mapping when the task succeeded, the model has such a
  mapping and the requested format is not one of its keys.
\<close>

theorem download_rejections:
  assumes "Tripo3DClient_get_task_status V get_status (JStr tid) = Inr t"
  shows "(status t \<noteq> SUCCESS \<longrightarrow>
            download_3d_model V True get_status get_file write_file tid fmt
              = Inl (HTTPException 400 (TaskNotCompleted (status t))))
       \<and> (status t = SUCCESS
            \<and> (output t = None \<or> (\<exists>out. output t = Some out \<and> ''model'' \<notin> set (map fst out)))
          \<longrightarrow> download_3d_model V True get_status get_file write_file tid fmt
              = Inl (HTTPException 404 ModelNotFound))
       \<and> (\<forall>out model urls.
            status t = SUCCESS \<and> output t = Some out \<and> map_of out ''model'' = Some model
            \<and> field model ''urls'' = Some (JObj urls) \<and> fmt \<notin> set (map fst urls)
          \<longrightarrow> download_3d_model V True get_status get_file write_file tid fmt
              = Inl (HTTPException 400 (FormatNotAvailable fmt (map fst urls))))"
proof (intro conjI allI impI)
  assume "status t \<noteq> SUCCESS"
  with assms show "download_3d_model V True get_status get_file write_file tid fmt
      = Inl (HTTPException 400 (TaskNotCompleted (status t)))"
    by (simp add: download_3d_model_def download_try_def)
next
  assume "status t = SUCCESS
    \<and> (output t = None \<or> (\<exists>out. output t = Some out \<and> ''model'' \<notin> set (map fst out)))"
  with assms show "download_3d_model V True get_status get_file write_file tid fmt
      = Inl (HTTPException 404 ModelNotFound)"
    by (auto simp: download_3d_model_def download_try_def)
next
  fix out model urls
  assume h: "status t = SUCCESS \<and> output t = Some out \<and> map_of out ''model'' = Some model
            \<and> field model ''urls'' = Some (JObj urls) \<and> fmt \<notin> set (map fst urls)"
  then have m: "''model'' \<in> fst ` set out" and ne: "out \<noteq> []"
    by (auto dest: map_of_key)
  from h have u: "py_getitem model ''urls'' = Inr (JObj urls)"
    by (simp add: getitem_of_field)
  from assms h m ne u
  show "download_3d_model V True get_status get_file write_file tid fmt
      = Inl (HTTPException 400 (FormatNotAvailable fmt (map fst urls)))"
    by (simp add: download_3d_model_def download_try_def)
qed

lemma status_snapshot:
  "TaskStatus_of (JStr s) = Inr st
   \<Longrightarrow> Tripo3DClient_get_task_status strict_validators (answers (status_body s)) (JStr tid)
     = Inr (snapshot tid st)"
  by (simp add: Tripo3DClient_get_task_status_def answers_def ok_response_def status_body_def
      task_response_of_def strict_validators_def snapshot_def)

lemma model_snapshot:
  "Tripo3DClient_get_task_status strict_validators (answers model_body) (JStr ''t-1'')
     = Inr ((snapshot ''t-1'' SUCCESS)
         \<lparr>output := Some [(''model'', JObj [(''urls'',
             JObj [(''glb'', JStr ''https://files/m.glb'')])])]\<rparr>)"
  by (simp add: Tripo3DClient_get_task_status_def answers_def ok_response_def model_body_def
      task_response_of_def strict_validators_def snapshot_def TaskStatus_of_def)

theorem download_rejections_witness:
  "download_3d_model strict_validators True (answers (status_body ''running''))
       (answers JNull) disk_ok ''t-1'' ''glb''
     = Inl (HTTPException 400 (TaskNotCompleted RUNNING))
   \<and> download_3d_model strict_validators True (answers (status_body ''success''))
       (answers JNull) disk_ok ''t-1'' ''glb''
     = Inl (HTTPException 404 ModelNotFound)
   \<and> download_3d_model strict_validators True (answers model_body)
       (answers JNull) disk_ok ''t-1'' ''obj''
     = Inl (HTTPException 400 (FormatNotAvailable ''obj'' [''glb'']))"
proof -
  have r: "TaskStatus_of (JStr ''running'') = Inr RUNNING"
    and s: "TaskStatus_of (JStr ''success'') = Inr SUCCESS"
    by (simp_all add: TaskStatus_of_def)
  have 1: "download_3d_model strict_validators True (answers (status_body ''running''))
       (answers JNull) disk_ok ''t-1'' ''glb''
     = Inl (HTTPException 400 (TaskNotCompleted RUNNING))"
    using download_rejections [OF status_snapshot [OF r], of "''t-1''" "answers JNull"
        disk_ok "''glb''"]
    by (simp add: snapshot_def)
  have 2: "download_3d_model strict_validators True (answers (status_body ''success''))
       (answers JNull) disk_ok ''t-1'' ''glb''
     = Inl (HTTPException 404 ModelNotFound)"
    using download_rejections [OF status_snapshot [OF s], of "''t-1''" "answers JNull"
        disk_ok "''glb''"]
    by (simp add: snapshot_def)
  have 3: "download_3d_model strict_validators True (answers model_body)
       (answers JNull) disk_ok ''t-1'' ''obj''
     = Inl (HTTPException 400 (FormatNotAvailable ''obj'' [''glb'']))"
    using download_rejections [OF model_snapshot, of "answers JNull"
        disk_ok "''obj''"]
    by (simp add: snapshot_def)
  from 1 2 3 show ?thesis by blast
qed

subsection \<open>The background poller\<close>

lemma store_hashable: "hashable k \<Longrightarrow> store k r st = Inr (st(dict_key k \<mapsto> r))"
  by (simp add: store_def)

lemma monitor_loop_done:
  "\<not> attempt s < max_attempts \<Longrightarrow> monitor_loop V c remote tid s = s"
  by (subst monitor_loop.simps) simp

lemma monitor_loop_raise:
  "attempt s < max_attempts
   \<Longrightarrow> poll V remote tid (attempt s) = Inl e
   \<Longrightarrow> monitor_loop V True remote tid s
       = monitor_loop V True remote tid
           (s\<lparr>attempt := attempt s + 1, queries := queries s + 1\<rparr>)"
  by (subst monitor_loop.simps) (simp add: poll_def)

lemma monitor_loop_continue:
  "attempt s < max_attempts
   \<Longrightarrow> poll V remote tid (attempt s) = Inr r
   \<Longrightarrow> hashable tid
   \<Longrightarrow> \<not> terminal (status r)
   \<Longrightarrow> monitor_loop V True remote tid s
       = monitor_loop V True remote tid
           (s\<lparr>storage := (storage s)(dict_key tid \<mapsto> r), attempt := attempt s + 1,
              queries := queries s + 1\<rparr>)"
  by (subst monitor_loop.simps) (simp add: poll_def store_hashable)

lemma monitor_loop_stop:
  "attempt s < max_attempts
   \<Longrightarrow> poll V remote tid (attempt s) = Inr r
   \<Longrightarrow> hashable tid
   \<Longrightarrow> terminal (status r)
   \<Longrightarrow> monitor_loop V True remote tid s
       = s\<lparr>storage := (storage s)(dict_key tid \<mapsto> r), queries := queries s + 1\<rparr>"
  by (subst monitor_loop.simps) (simp add: poll_def store_hashable)

lemma monitor_loop_stops_at:
  assumes "hashable tid"
    and "poll V remote tid n = Inr r" and "terminal (status r)" and "n < max_attempts"
  shows "n - attempt s = k \<Longrightarrow> attempt s \<le> n
    \<Longrightarrow> (\<forall>i. attempt s \<le> i \<and> i < n \<longrightarrow> \<not> sees_terminal (poll V remote tid i))
    \<Longrightarrow> monitor_loop V True remote tid s
        = \<lparr>storage = (storage s)(dict_key tid \<mapsto> r), attempt = n,
           queries = queries s + (n - attempt s) + 1\<rparr>"
proof (induction k arbitrary: s)
  case 0
  then have "attempt s = n" by simp
  with assms show ?case
    by (cases s) (auto simp: monitor_loop_stop)
next
  case (Suc k)
  then have lt: "attempt s < n" by simp
  with assms have lt': "attempt s < max_attempts" by simp
  from Suc.prems lt have nt: "\<not> sees_terminal (poll V remote tid (attempt s))"
    by simp
  show ?case
  proof (cases "poll V remote tid (attempt s)")
    case (Inl e)
    let ?s = "s\<lparr>attempt := attempt s + 1, queries := queries s + 1\<rparr>"
    have "monitor_loop V True remote tid ?s
        = \<lparr>storage = (storage ?s)(dict_key tid \<mapsto> r), attempt = n,
           queries = queries ?s + (n - attempt ?s) + 1\<rparr>"
      using Suc.prems lt by (intro Suc.IH) auto
    with Inl lt lt' show ?thesis
      by (auto simp: monitor_loop_raise)
  next
    case (Inr x)
    let ?s = "s\<lparr>storage := (storage s)(dict_key tid \<mapsto> x), attempt := attempt s + 1,
                queries := queries s + 1\<rparr>"
    from Inr nt have "\<not> terminal (status x)"
      by (simp add: sees_terminal_def)
    then have step: "monitor_loop V True remote tid s = monitor_loop V True remote tid ?s"
      using Inr lt' assms(1) by (simp add: monitor_loop_continue)
    have "monitor_loop V True remote tid ?s
        = \<lparr>storage = (storage ?s)(dict_key tid \<mapsto> r), attempt = n,
           queries = queries ?s + (n - attempt ?s) + 1\<rparr>"
      using Suc.prems lt by (intro Suc.IH) auto
    with step lt show ?thesis
      by auto
  qed
qed

text \<open>
  C2: with the client configured and a task id that is a string (or any hashable value),
  when the query of attempt \<open>n\<close> is the first to give a terminal snapshot \<open>r\<close>, the
  poller returns having issued exactly \<open>n + 1\<close> status queries, none after that one,
  and the tracker holds \<open>r\<close> under the task id (\<open>dict_key tid\<close> is \<open>tid\<close> itself
  for a string).
\<close>

theorem poller_stops_at_terminal:
  assumes "hashable tid" and "n < 120"
    and "\<forall>i<n. \<not> sees_terminal (poll V remote tid i)"
    and "poll V remote tid n = Inr r" and "terminal (status r)"
  shows "monitor_task_progress V True remote tid st
      = \<lparr>storage = st(dict_key tid \<mapsto> r), attempt = n, queries = n + 1\<rparr>"
  using monitor_loop_stops_at
    [of tid V remote n r "\<lparr>storage = st, attempt = 0, queries = 0\<rparr>" n] assms
  by (simp add: monitor_task_progress_def max_attempts_def)


lemma poll_script:
  "i < length names \<Longrightarrow> TaskStatus_of (JStr (names ! i)) = Inr st1
   \<Longrightarrow> poll strict_validators (script (map status_body names)) (JStr tid) i
     = Inr (snapshot tid st1)"
  by (simp add: poll_def script_def Tripo3DClient_get_task_status_def ok_response_def
      status_body_def task_response_of_def strict_validators_def snapshot_def)

theorem poller_stops_at_terminal_witness:
  "monitor_task_progress strict_validators True
       (script (map status_body [''queued'', ''running'', ''success''])) (JStr ''t-1'')
       Map.empty
     = \<lparr>storage = [JStr ''t-1'' \<mapsto> snapshot ''t-1'' SUCCESS], attempt = 2, queries = 3\<rparr>"
proof -
  let ?poll = "poll strict_validators
      (script (map status_body [''queued'', ''running'', ''success''])) (JStr ''t-1'')"
  have p0: "?poll 0 = Inr (snapshot ''t-1'' QUEUED)"
    by (rule poll_script) (simp_all add: TaskStatus_of_def)
  have p1: "?poll 1 = Inr (snapshot ''t-1'' RUNNING)"
    by (rule poll_script) (simp_all add: TaskStatus_of_def)
  have p2: "?poll 2 = Inr (snapshot ''t-1'' SUCCESS)"
    by (rule poll_script) (simp_all add: TaskStatus_of_def)
  have before: "\<forall>i<2. \<not> sees_terminal (?poll i)"
  proof (intro allI impI)
    fix i :: nat
    assume "i < 2"
    then have "i = 0 \<or> i = 1" by auto
    with p0 p1 show "\<not> sees_terminal (?poll i)"
      by (auto simp: sees_terminal_def terminal_def snapshot_def)
  qed
  have t: "terminal (status (snapshot ''t-1'' SUCCESS))"
    by (simp add: terminal_def snapshot_def)
  have h: "hashable (JStr ''t-1'')" by simp
  have n: "(2::nat) < 120" by simp
  from poller_stops_at_terminal [OF h n before p2 t, of Map.empty]
  show ?thesis by simp
qed

lemma monitor_loop_bound:
  "attempt s \<le> max_attempts
   \<Longrightarrow> queries (monitor_loop V c remote tid s) \<le> queries s + (max_attempts - attempt s)
     \<and> attempt (monitor_loop V c remote tid s) \<le> max_attempts"
proof (induction V c remote tid s rule: monitor_loop.induct)
  case (1 V c remote tid s)
  show ?case
  proof (cases "attempt s < max_attempts \<and> c")
    case False
    with "1.prems" show ?thesis
      by (subst (1 2) monitor_loop.simps) auto
  next
    case True
    show ?thesis
    proof (cases "Tripo3DClient_get_task_status V (remote (attempt s)) tid")
      case (Inl e)
      with True "1.IH"(1) [OF _ _ Inl] show ?thesis
        by (subst (1 2) monitor_loop.simps) auto
    next
      case (Inr r)
      show ?thesis
      proof (cases "store tid r (storage s)")
        case (Inl e)
        with True Inr "1.IH"(2) [OF _ _ Inr Inl] show ?thesis
          by (subst (1 2) monitor_loop.simps) auto
      next
        case st: (Inr st')
        show ?thesis
        proof (cases "terminal (status r)")
          case t: True
          with True Inr st show ?thesis
            by (subst (1 2) monitor_loop.simps) auto
        next
          case f: False
          with True Inr st "1.IH"(3) [OF _ _ Inr st f] show ?thesis
            by (subst (1 2) monitor_loop.simps) auto
        qed
      qed
    qed
  qed
qed

lemma last_snapshot_observed:
  "last_snapshot p n = Some r \<Longrightarrow> \<exists>i<n. p i = Inr r"
proof (induction n)
  case 0
  then show ?case by simp
next
  case (Suc n)
  then show ?case
    by (cases "p n") (auto intro: less_SucI)
qed

lemma overwrite_same: "(overwrite st k snap)(k \<mapsto> r) = st(k \<mapsto> r)"
  by (cases snap) (simp_all add: overwrite_def)

lemma monitor_loop_exhausts:
  assumes "hashable tid"
  shows "max_attempts - attempt s = k \<Longrightarrow> attempt s \<le> max_attempts
    \<Longrightarrow> (\<forall>i. attempt s \<le> i \<and> i < max_attempts
            \<longrightarrow> \<not> sees_terminal (poll V remote tid i))
    \<Longrightarrow> storage s = overwrite st (dict_key tid) (last_snapshot (poll V remote tid) (attempt s))
    \<Longrightarrow> monitor_loop V True remote tid s
        = \<lparr>storage = overwrite st (dict_key tid) (last_snapshot (poll V remote tid) max_attempts),
           attempt = max_attempts,
           queries = queries s + (max_attempts - attempt s)\<rparr>"
proof (induction k arbitrary: s)
  case 0
  then have "attempt s = max_attempts" by simp
  with "0.prems" show ?case
    by (cases s) (auto simp: monitor_loop_done)
next
  case (Suc k)
  then have lt: "attempt s < max_attempts" by simp
  from Suc.prems lt have nt: "\<not> sees_terminal (poll V remote tid (attempt s))"
    by simp
  show ?case
  proof (cases "poll V remote tid (attempt s)")
    case (Inl e)
    let ?s = "s\<lparr>attempt := attempt s + 1, queries := queries s + 1\<rparr>"
    have "monitor_loop V True remote tid ?s
        = \<lparr>storage = overwrite st (dict_key tid) (last_snapshot (poll V remote tid) max_attempts),
           attempt = max_attempts,
           queries = queries ?s + (max_attempts - attempt ?s)\<rparr>"
      using Suc.prems lt Inl by (intro Suc.IH) auto
    with Inl lt show ?thesis
      by (auto simp: monitor_loop_raise)
  next
    case (Inr x)
    let ?s = "s\<lparr>storage := (storage s)(dict_key tid \<mapsto> x), attempt := attempt s + 1,
                queries := queries s + 1\<rparr>"
    from Inr nt have "\<not> terminal (status x)"
      by (simp add: sees_terminal_def)
    then have step: "monitor_loop V True remote tid s = monitor_loop V True remote tid ?s"
      using Inr lt assms by (simp add: monitor_loop_continue)
    have "monitor_loop V True remote tid ?s
        = \<lparr>storage = overwrite st (dict_key tid) (last_snapshot (poll V remote tid) max_attempts),
           attempt = max_attempts,
           queries = queries ?s + (max_attempts - attempt ?s)\<rparr>"
    proof (intro Suc.IH)
      have "storage ?s = (overwrite st (dict_key tid)
          (last_snapshot (poll V remote tid) (attempt s)))(dict_key tid \<mapsto> x)"
        using Suc.prems by simp
      also have "\<dots> = st(dict_key tid \<mapsto> x)"
        by (rule overwrite_same)
      also have "\<dots> = overwrite st (dict_key tid) (last_snapshot (poll V remote tid) (attempt ?s))"
        using Inr by (simp add: overwrite_def)
      finally show "storage ?s
          = overwrite st (dict_key tid) (last_snapshot (poll V remote tid) (attempt ?s))" .
    qed (use Suc.prems lt in auto)
    with step lt show ?thesis
      by auto
  qed
qed


text \<open>
  C4: for every task and every sequence of remote answers, raising ones included, the
  poller returns after at most 120 attempts and 120 status queries. When the client is
  configured, the task id is hashable and none of the 120 attempts gives a terminal
  snapshot, it returns with the counter at 120 after 120 queries (a raising attempt
  costs one like any other), and the tracker is the initial one with the task's entry
  overwritten by the last snapshot obtained, if there was one: a snapshot the remote
  gave, not terminal; nothing else is written.
\<close>

theorem poller_budget:
  "queries (monitor_task_progress V configured remote tid st) \<le> 120
   \<and> attempt (monitor_task_progress V configured remote tid st) \<le> 120
   \<and> (configured \<and> hashable tid \<and> (\<forall>i<120. \<not> sees_terminal (poll V remote tid i)) \<longrightarrow>
        monitor_task_progress V configured remote tid st
          = \<lparr>storage = overwrite st (dict_key tid) (last_snapshot (poll V remote tid) 120),
             attempt = 120, queries = 120\<rparr>
        \<and> (\<forall>r. last_snapshot (poll V remote tid) 120 = Some r \<longrightarrow>
              (\<exists>i<120. poll V remote tid i = Inr r) \<and> \<not> terminal (status r)))"
proof (intro conjI impI allI)
  let ?s0 = "\<lparr>storage = st, attempt = 0, queries = 0\<rparr>"
  have b: "queries (monitor_loop V configured remote tid ?s0)
             \<le> queries ?s0 + (max_attempts - attempt ?s0)
         \<and> attempt (monitor_loop V configured remote tid ?s0) \<le> max_attempts"
    by (rule monitor_loop_bound) simp
  from b show "queries (monitor_task_progress V configured remote tid st) \<le> 120"
    by (simp add: monitor_task_progress_def max_attempts_def)
  from b show "attempt (monitor_task_progress V configured remote tid st) \<le> 120"
    by (simp add: monitor_task_progress_def max_attempts_def)
next
  assume h: "configured \<and> hashable tid \<and> (\<forall>i<120. \<not> sees_terminal (poll V remote tid i))"
  let ?s0 = "\<lparr>storage = st, attempt = 0, queries = 0\<rparr>"
  from h have "monitor_loop V True remote tid ?s0
        = \<lparr>storage = overwrite st (dict_key tid) (last_snapshot (poll V remote tid) max_attempts),
           attempt = max_attempts,
           queries = queries ?s0 + (max_attempts - attempt ?s0)\<rparr>"
    by (intro monitor_loop_exhausts [where k = max_attempts])
       (simp_all add: max_attempts_def overwrite_def)
  with h show "monitor_task_progress V configured remote tid st
          = \<lparr>storage = overwrite st (dict_key tid) (last_snapshot (poll V remote tid) 120),
             attempt = 120, queries = 120\<rparr>"
    by (simp add: monitor_task_progress_def max_attempts_def)
next
  fix r
  assume h: "configured \<and> hashable tid \<and> (\<forall>i<120. \<not> sees_terminal (poll V remote tid i))"
    and l: "last_snapshot (poll V remote tid) 120 = Some r"
  from last_snapshot_observed [OF l] obtain i where i: "i < 120" "poll V remote tid i = Inr r"
    by blast
  then show "\<exists>i<120. poll V remote tid i = Inr r" by blast
  from h i show "\<not> terminal (status r)"
    by (auto simp: sees_terminal_def)
qed

lemma last_snapshot_Suc: "p n = Inr r \<Longrightarrow> last_snapshot p (Suc n) = Some r"
  by simp

lemma last_snapshot_none: "(\<forall>i<n. \<exists>e. p i = Inl e) \<Longrightarrow> last_snapshot p n = None"
  by (induction n) auto

lemma poll_steady:
  "TaskStatus_of (JStr s) = Inr st1
   \<Longrightarrow> poll strict_validators (steady (status_body s)) (JStr tid) i = Inr (snapshot tid st1)"
  by (simp add: poll_def steady_def Tripo3DClient_get_task_status_def ok_response_def
      status_body_def task_response_of_def strict_validators_def snapshot_def)

lemma poll_script_over:
  "poll V (script []) tid i = Inl (HTTPException 408 StatusCheckTimeout)"
  by (simp add: poll_def script_def Tripo3DClient_get_task_status_def)

theorem poller_budget_witness:
  "monitor_task_progress strict_validators True (steady (status_body ''running''))
       (JStr ''t-1'') Map.empty
     = \<lparr>storage = [JStr ''t-1'' \<mapsto> snapshot ''t-1'' RUNNING], attempt = 120, queries = 120\<rparr>
   \<and> monitor_task_progress strict_validators True (script [])
       (JStr ''t-1'') [JStr ''t-1'' \<mapsto> snapshot ''t-1'' QUEUED]
     = \<lparr>storage = [JStr ''t-1'' \<mapsto> snapshot ''t-1'' QUEUED], attempt = 120, queries = 120\<rparr>"
proof -
  let ?p = "poll strict_validators (steady (status_body ''running'')) (JStr ''t-1'')"
  let ?q = "poll strict_validators (script []) (JStr ''t-1'')"
  have p: "?p i = Inr (snapshot ''t-1'' RUNNING)" for i
    by (rule poll_steady) (simp add: TaskStatus_of_def)
  then have "last_snapshot ?p (Suc 119) = Some (snapshot ''t-1'' RUNNING)"
    by (rule last_snapshot_Suc)
  then have lp: "last_snapshot ?p 120 = Some (snapshot ''t-1'' RUNNING)"
    by simp
  have np: "\<forall>i<120. \<not> sees_terminal (?p i)"
    by (simp add: p sees_terminal_def terminal_def snapshot_def)
  have lq: "last_snapshot ?q 120 = None"
    by (rule last_snapshot_none) (simp add: poll_script_over)
  have nq: "\<forall>i<120. \<not> sees_terminal (?q i)"
    by (simp add: poll_script_over sees_terminal_def)
  have 1: "monitor_task_progress strict_validators True (steady (status_body ''running''))
       (JStr ''t-1'') Map.empty
     = \<lparr>storage = [JStr ''t-1'' \<mapsto> snapshot ''t-1'' RUNNING], attempt = 120, queries = 120\<rparr>"
    using poller_budget [of strict_validators True "steady (status_body ''running'')"
        "JStr ''t-1''" Map.empty] np lp
    by (simp add: overwrite_def)
  have 2: "monitor_task_progress strict_validators True (script [])
       (JStr ''t-1'') [JStr ''t-1'' \<mapsto> snapshot ''t-1'' QUEUED]
     = \<lparr>storage = [JStr ''t-1'' \<mapsto> snapshot ''t-1'' QUEUED], attempt = 120, queries = 120\<rparr>"
    using poller_budget [of strict_validators True "script []"
        "JStr ''t-1''" "[JStr ''t-1'' \<mapsto> snapshot ''t-1'' QUEUED]"] nq lq
    by (simp add: overwrite_def)
  from 1 2 show ?thesis by blast
qed

subsection \<open>The keys of the tracker\<close>

lemma task_response_of_task_id:
  "task_response_of V tid result = Inr t \<Longrightarrow> validate_str V tid = Some (task_id t)"
  by (auto simp: task_response_of_def split: sum.splits bool.splits option.splits)

lemma get_task_status_task_id:
  "Tripo3DClient_get_task_status V get tid = Inr t \<Longrightarrow> validate_str V tid = Some (task_id t)"
  by (auto dest!: get_task_status_Inr task_response_of_task_id)

lemma dict_key_string: "dict_key k = JStr s \<Longrightarrow> k = JStr s"
  by (cases k) (auto split: if_splits)

lemma own_keys_store_id:
  "store k r st = Inr st' \<Longrightarrow> own_keys V st \<Longrightarrow> validate_str V k = Some i
   \<Longrightarrow> task_id r = i \<Longrightarrow> own_keys V st'"
  by (auto simp: own_keys_def store_def split: if_splits)

lemma own_keys_store:
  "own_keys V st \<Longrightarrow> validate_str V k = Some (task_id r) \<Longrightarrow> store k r st = Inr st'
   \<Longrightarrow> own_keys V st'"
  by (rule own_keys_store_id) auto

lemma own_keys_monitor_loop:
  "own_keys V (storage s) \<Longrightarrow> own_keys V (storage (monitor_loop V c remote tid s))"
proof (induction V c remote tid s rule: monitor_loop.induct)
  case (1 V c remote tid s)
  show ?case
  proof (cases "attempt s < max_attempts \<and> c")
    case False
    with "1.prems" show ?thesis
      by (subst monitor_loop.simps) auto
  next
    case True
    show ?thesis
    proof (cases "Tripo3DClient_get_task_status V (remote (attempt s)) tid")
      case (Inl e)
      with True "1.IH"(1) [OF _ _ Inl] "1.prems" show ?thesis
        by (subst monitor_loop.simps) auto
    next
      case (Inr r)
      note r = get_task_status_task_id [OF Inr]
      show ?thesis
      proof (cases "store tid r (storage s)")
        case (Inl e)
        with True Inr "1.IH"(2) [OF _ _ Inr Inl] "1.prems" show ?thesis
          by (subst monitor_loop.simps) auto
      next
        case st: (Inr st')
        from own_keys_store [OF "1.prems" r st] have k: "own_keys V st'" .
        show ?thesis
        proof (cases "terminal (status r)")
          case t: True
          with True Inr st k show ?thesis
            by (subst monitor_loop.simps) auto
        next
          case f: False
          with True Inr st k "1.IH"(3) [OF _ _ Inr st f] show ?thesis
            by (subst monitor_loop.simps) auto
        qed
      qed
    qed
  qed
qed

lemma own_keys_convert:
  "own_keys V (task_storage srv)
   \<Longrightarrow> own_keys V (task_storage (snd (convert_image_to_3d P V c post_upload post_task now
        file mv sty tex rem srv)))"
  by (auto simp: convert_image_to_3d_def convert_try_def Let_def
      split: sum.splits option.splits if_splits prod.splits
      elim: own_keys_store_id)

lemma own_keys_status:
  "own_keys V (task_storage srv)
   \<Longrightarrow> own_keys V (task_storage (snd (get_task_status V c get tid srv)))"
  by (auto simp: get_task_status_def split: sum.splits
      dest: get_task_status_task_id intro: own_keys_store)

lemma own_keys_event:
  "own_keys V (task_storage srv) \<Longrightarrow> own_keys V (task_storage (apply_event P V c srv ev))"
proof (cases ev)
  case (BackgroundPoll remote tid)
  assume "own_keys V (task_storage srv)"
  then have "own_keys V (storage (monitor_loop V c remote tid
      \<lparr>storage = task_storage srv, attempt = 0, queries = 0\<rparr>))"
    by (intro own_keys_monitor_loop) simp
  with BackgroundPoll show ?thesis
    by (simp add: monitor_task_progress_def)
qed (simp_all add: own_keys_convert own_keys_status)

lemma own_keys_foldl:
  "own_keys V (task_storage srv)
   \<Longrightarrow> own_keys V (task_storage (foldl (apply_event P V c) srv events))"
  by (induction events arbitrary: srv) (simp_all add: own_keys_event)

lemma own_keys_run: "own_keys V (task_storage (run P V c events))"
  unfolding run_def by (rule own_keys_foldl) (simp add: own_keys_def)

text \<open>
  C10, as the code has it: after any sequence of submit, status-query and
  background-poll operations on an initially empty tracker, every entry's snapshot
  carries the task id that the \<^verbatim>\<open>str\<close> field validator made of the id the entry
  was written under, a key equal to the entry's own. So under a string key the
  snapshot's task id is that string, for validators that leave strings as they are; and
  the key equals the snapshot's task id throughout, for validators that accept strings
  only.
\<close>

theorem task_storage_keys:
  "(\<forall>c r. task_storage (run P V configured events) c = Some r
       \<longrightarrow> (\<exists>k. dict_key k = c \<and> validate_str V k = Some (task_id r)))
   \<and> ((\<forall>s. validate_str V (JStr s) = Some s) \<longrightarrow>
        (\<forall>s r. task_storage (run P V configured events) (JStr s) = Some r
           \<longrightarrow> task_id r = s))
   \<and> ((\<forall>j s. validate_str V j = Some s \<longrightarrow> j = JStr s) \<longrightarrow>
        (\<forall>c r. task_storage (run P V configured events) c = Some r
           \<longrightarrow> c = JStr (task_id r)))"
proof (intro conjI impI allI)
  note inv = own_keys_run [of V P configured events, unfolded own_keys_def]
  fix c r
  assume e: "task_storage (run P V configured events) c = Some r"
  from inv e show "\<exists>k. dict_key k = c \<and> validate_str V k = Some (task_id r)"
    by blast
next
  note inv = own_keys_run [of V P configured events, unfolded own_keys_def]
  fix s r
  assume v: "\<forall>s. validate_str V (JStr s) = Some s"
    and e: "task_storage (run P V configured events) (JStr s) = Some r"
  from inv e obtain k where k: "dict_key k = JStr s" "validate_str V k = Some (task_id r)"
    by blast
  from k(1) have "k = JStr s" by (rule dict_key_string)
  with k(2) v show "task_id r = s" by simp
next
  note inv = own_keys_run [of V P configured events, unfolded own_keys_def]
  fix c r
  assume v: "\<forall>j s. validate_str V j = Some s \<longrightarrow> j = JStr s"
    and e: "task_storage (run P V configured events) c = Some r"
  from inv e obtain k where k: "dict_key k = c" "validate_str V k = Some (task_id r)"
    by blast
  from k(2) v have "k = JStr (task_id r)" by blast
  with k(1) show "c = JStr (task_id r)" by auto
qed

lemma sample_submit:
  "convert_image_to_3d stub_pil strict_validators True
       (upload_answers (JObj [(''data'', JStr ''tok-1'')]))
       (answers (JObj [(''data'', JObj [(''task_id'', JStr ''t-1'')])]))
       1700000000 unsized_upload ''v2.0-20240919'' None 1024 ''none'' empty_server
     = (Inr (JObj [(''task_id'', JStr ''t-1''), (''status'', JStr ''queued''),
                   (''message'', JStr ''Image uploaded and conversion task started'')]),
        \<lparr>task_storage = [JStr ''t-1'' \<mapsto> (snapshot ''t-1'' QUEUED)\<lparr>created_time := Some 1700000000\<rparr>],
         background_tasks = [JStr ''t-1'']\<rparr>)"
  by (simp add: convert_image_to_3d_def convert_try_def unsized_upload_def startswith_def
      size_too_large_def upload_image_def upload_answers_def ok_response_def
      extract_token_def create_task_def answers_def extract_task_id_def
      strict_validators_def store_def empty_server_def snapshot_def Let_def)

lemma sample_run:
  "task_storage (run stub_pil strict_validators True sample_events)
     = [JStr ''t-1'' \<mapsto> snapshot ''t-1'' SUCCESS]"
proof -
  have p: "poll strict_validators (script (map status_body [''success''])) (JStr ''t-1'') 0
      = Inr (snapshot ''t-1'' SUCCESS)"
    by (rule poll_script) (simp_all add: TaskStatus_of_def)
  have "monitor_loop strict_validators True (script (map status_body [''success'']))
        (JStr ''t-1'') \<lparr>storage = st, attempt = 0, queries = 0\<rparr>
      = \<lparr>storage = st(JStr ''t-1'' \<mapsto> snapshot ''t-1'' SUCCESS), attempt = 0, queries = 1\<rparr>"
    for st
    using p by (simp add: monitor_loop_stop max_attempts_def terminal_def snapshot_def)
  then show ?thesis
    using sample_submit
    by (simp add: run_def sample_events_def monitor_task_progress_def empty_server_def)
qed

theorem task_storage_keys_witness:
  "task_storage (run stub_pil strict_validators True sample_events) (JStr ''t-1'')
     = Some (snapshot ''t-1'' SUCCESS)
   \<and> task_id (snapshot ''t-1'' SUCCESS) = ''t-1''"
proof -
  have e: "task_storage (run stub_pil strict_validators True sample_events) (JStr ''t-1'')
     = Some (snapshot ''t-1'' SUCCESS)"
    by (simp add: sample_run)
  have v: "\<forall>s. validate_str strict_validators (JStr s) = Some s"
    by (simp add: strict_validators_def)
  from task_storage_keys [of stub_pil strict_validators True sample_events] e v
  show ?thesis by blast
qed

text \<open>
  With a validator that turns the number 77 into the string \<^verbatim>\<open>77\<close>, a numeric task
  id from the remote is stored under the number while the snapshot carries the string.
\<close>

lemma dec_77: "dec 77 = ''77''"
  by (simp add: dec.simps [of 77] dec.simps [of 7])

theorem task_storage_numeric_key_counterexample:
  "task_storage (run stub_pil coercing_validators True numeric_id_events) (JInt 77)
     = Some ((snapshot ''77'' QUEUED)\<lparr>created_time := Some 1700000000\<rparr>)
   \<and> JStr (task_id ((snapshot ''77'' QUEUED)\<lparr>created_time := Some 1700000000\<rparr>)) \<noteq> JInt 77"
  by (simp add: run_def numeric_id_events_def
      convert_image_to_3d_def convert_try_def unsized_upload_def startswith_def
      size_too_large_def upload_image_def upload_answers_def ok_response_def
      extract_token_def create_task_def answers_def extract_task_id_def
      coercing_validators_def py_str_def dec_77 store_def snapshot_def Let_def)

subsection \<open>The size of the normalized image\<close>

















end
